theory Spec2Isabelle
  imports Complex_Main
begin

text \<open>
  A shallow embedding of the offline and online degradation pipeline of the civic
  reporting application: the rule-based classifier of the AI assistant, the report
  normalizer, rendering mode and offline snapshot of the map view, the category chart and
  the category counts of the page that feeds it, the aggregation of the analytics
  dashboard, and the report form.

  A React component is modelled by a record of its state and by one function per handler
  or effect, from the state before to the state after. What a handler reads from the
  platform (the clock, \<open>Math.random()\<close>, the network, the local storage, the outcome of
  loading a library) is an argument of its function. A handler that awaits runs to its
  end in the model before the next event.
\<close>

section \<open>JavaScript strings\<close>

text \<open>
  A JavaScript string is a sequence of UTF-16 code units. The model reads a \<open>char\<close> as the
  code unit of the same number, so it covers the strings over U+0000..U+00FF. Every keyword
  of the classifier and every place name of the geocoding filter is ASCII.

  \<open>toLowerCase\<close> maps \<open>A\<close>..\<open>Z\<close> and the Latin-1 capitals (U+00C0..U+00DE without the
  multiplication sign U+00D7) to the letter 32 code units later and leaves the rest alone.
  \<open>trim\<close> strips white space and line terminators from both ends; below U+0100 these are
  U+0009..U+000D, U+0020 and U+00A0.
\<close>

definition isUpper :: "char \<Rightarrow> bool" where
  "isUpper c =
     (let n = (of_char c :: nat)
      in (65 \<le> n \<and> n \<le> 90) \<or> (192 \<le> n \<and> n \<le> 222 \<and> n \<noteq> 215))"

definition lowerChar :: "char \<Rightarrow> char" where
  "lowerChar c = (if isUpper c then char_of ((of_char c :: nat) + 32) else c)"

definition toLowerCase :: "string \<Rightarrow> string" where
  "toLowerCase s = map lowerChar s"

definition isWhiteSpace :: "char \<Rightarrow> bool" where
  "isWhiteSpace c =
     (let n = (of_char c :: nat) in (9 \<le> n \<and> n \<le> 13) \<or> n = 32 \<or> n = 160)"

definition trim :: "string \<Rightarrow> string" where
  "trim s = rev (dropWhile isWhiteSpace (rev (dropWhile isWhiteSpace s)))"

text \<open>\<open>s.startsWith(w)\<close> and \<open>s.includes(w)\<close>: \<open>w\<close> occurs at the front of \<open>s\<close>, or at
  some position of it.\<close>

fun startsWith :: "string \<Rightarrow> string \<Rightarrow> bool" where
  "startsWith s [] = True"
| "startsWith [] (w # ws) = False"
| "startsWith (c # cs) (w # ws) = (c = w \<and> startsWith cs ws)"

fun includesStr :: "string \<Rightarrow> string \<Rightarrow> bool" where
  "includesStr [] w = startsWith [] w"
| "includesStr (c # cs) w = (startsWith (c # cs) w \<or> includesStr cs w)"

subsection \<open>The regular expressions of the classifier\<close>

text \<open>
  Every pattern of the offline classifier has the shape \<open>/\b(w1|w2|...|wn)\b/\<close>, with no
  flag. \<open>\w\<close> is \<open>[A-Za-z0-9_]\<close>; \<open>\b\<close> holds at a position when exactly one of the
  characters before and after it is a \<open>\w\<close> character (the start and the end of the
  input count as not \<open>\w\<close>). The backtracking matcher tries every position and every
  alternative, so \<open>s.match(re)\<close> is not null exactly when some alternative occurs at some
  position with a word boundary on both sides.
\<close>

definition isWordChar :: "char \<Rightarrow> bool" where
  "isWordChar c =
     (let n = (of_char c :: nat)
      in (48 \<le> n \<and> n \<le> 57) \<or> (65 \<le> n \<and> n \<le> 90) \<or> n = 95 \<or> (97 \<le> n \<and> n \<le> 122))"

definition isWordAt :: "char option \<Rightarrow> bool" where
  "isWordAt x = (case x of None \<Rightarrow> False | Some c \<Rightarrow> isWordChar c)"

definition wordBoundary :: "char option \<Rightarrow> char option \<Rightarrow> bool" where
  "wordBoundary before after = (isWordAt before \<noteq> isWordAt after)"

definition firstChar :: "string \<Rightarrow> char option" where
  "firstChar s = (case s of [] \<Rightarrow> None | c # _ \<Rightarrow> Some c)"

definition lastCharOr :: "char option \<Rightarrow> string \<Rightarrow> char option" where
  "lastCharOr prev w = (if w = [] then prev else Some (last w))"

text \<open>One alternative at one position: \<open>prev\<close> is the character before the position and
  \<open>s\<close> the input from the position on.\<close>

definition altMatchesAt :: "char option \<Rightarrow> string \<Rightarrow> string \<Rightarrow> bool" where
  "altMatchesAt prev s w =
     (if startsWith s w
      then wordBoundary prev (firstChar s) \<and>
           wordBoundary (lastCharOr prev w) (firstChar (drop (length w) s))
      else False)"

fun scanWords :: "string list \<Rightarrow> char option \<Rightarrow> string \<Rightarrow> bool" where
  "scanWords ws prev [] = list_ex (altMatchesAt prev []) ws"
| "scanWords ws prev (c # cs) =
     (list_ex (altMatchesAt prev (c # cs)) ws \<or> scanWords ws (Some c) cs)"

definition matchWords :: "string list \<Rightarrow> string \<Rightarrow> bool" where
  "matchWords ws s = scanWords ws None s"

section \<open>The rule-based classifier (AI assistant)\<close>

text \<open>A confidence is a decimal literal of the source; the model keeps it as the exact
  rational. \<open>isOfflineFallback\<close> is an optional field: \<open>None\<close> is the absent field.\<close>

record ClassificationResult =
  category :: string
  confidence :: rat
  reasoning :: string
  isOfflineFallback :: "bool option"

definition safetyWords :: "string list" where
  "safetyWords = [''danger'', ''unsafe'', ''hazard'', ''risk'', ''emergency'', ''urgent'',
     ''critical'', ''accident'', ''injury'', ''fire'', ''violence'', ''threat'']"

definition infrastructureWords :: "string list" where
  "infrastructureWords = [''pothole'', ''road'', ''bridge'', ''water'', ''pipe'', ''sewer'',
     ''light'', ''electricity'', ''power'', ''construction'', ''building'', ''repair'',
     ''maintenance'']"

definition environmentalWords :: "string list" where
  "environmentalWords = [''pollution'', ''noise'', ''air'', ''water'', ''waste'', ''garbage'',
     ''trash'', ''environment'', ''green'', ''tree'', ''park'', ''clean'']"

definition trafficWords :: "string list" where
  "trafficWords = [''traffic'', ''car'', ''vehicle'', ''parking'', ''signal'', ''jam'',
     ''congestion'', ''speed'', ''driving'', ''transport'']"

definition urgencyWords :: "string list" where
  "urgencyWords = [''urgent'', ''asap'', ''immediately'', ''now'', ''quick'', ''fast'',
     ''emergency'']"

definition questionWords :: "string list" where
  "questionWords = [''what'', ''when'', ''where'', ''why'', ''how'', ''question'', ''help'',
     ''support'']"

definition positiveWords :: "string list" where
  "positiveWords = [''thank'', ''thanks'', ''great'', ''excellent'', ''good'', ''awesome'',
     ''wonderful'', ''appreciate'', ''love'', ''perfect'']"

definition issueWords :: "string list" where
  "issueWords = [''problem'', ''issue'', ''error'', ''bug'', ''broken'', ''not working'',
     ''failed'', ''wrong'', ''trouble'']"

definition suggestionWords :: "string list" where
  "suggestionWords = [''suggest'', ''improve'', ''feature'', ''enhancement'', ''better'',
     ''could'', ''should'', ''would'', ''idea'']"

text \<open>The predicates of the offline table, on the normalized text, in the order of the
  source.\<close>

definition offSafety :: "string \<Rightarrow> bool" where
  "offSafety n = matchWords safetyWords n"

definition offInfrastructure :: "string \<Rightarrow> bool" where
  "offInfrastructure n = matchWords infrastructureWords n"

definition offEnvironmental :: "string \<Rightarrow> bool" where
  "offEnvironmental n = matchWords environmentalWords n"

definition offTraffic :: "string \<Rightarrow> bool" where
  "offTraffic n = matchWords trafficWords n"

definition offUrgency :: "string \<Rightarrow> bool" where
  "offUrgency n = (matchWords urgencyWords n \<or> includesStr n ''!'')"

definition offQuestion :: "string \<Rightarrow> bool" where
  "offQuestion n = (includesStr n ''?'' \<or> matchWords questionWords n)"

definition offPositive :: "string \<Rightarrow> bool" where
  "offPositive n = matchWords positiveWords n"

definition offIssue :: "string \<Rightarrow> bool" where
  "offIssue n = matchWords issueWords n"

definition offSuggestion :: "string \<Rightarrow> bool" where
  "offSuggestion n = matchWords suggestionWords n"

definition offlineResult :: "string \<Rightarrow> rat \<Rightarrow> string \<Rightarrow> ClassificationResult" where
  "offlineResult c k r =
     \<lparr>category = c, confidence = k, reasoning = r, isOfflineFallback = Some True\<rparr>"

definition offlineClassification :: "string \<Rightarrow> ClassificationResult" where
  "offlineClassification text0 =
     (let normalizedText = trim (toLowerCase text0) in
      if offSafety normalizedText then
        offlineResult ''Safety Issue'' 0.92
          ''Detected safety-related keywords and risk indicators in the text.''
      else if offInfrastructure normalizedText then
        offlineResult ''Infrastructure'' 0.88
          ''Identified infrastructure and maintenance-related terminology.''
      else if offEnvironmental normalizedText then
        offlineResult ''Environmental'' 0.85
          ''Found environmental and sustainability-related terms.''
      else if offTraffic normalizedText then
        offlineResult ''Traffic'' 0.87
          ''Detected transportation and traffic-related content.''
      else if offUrgency normalizedText then
        offlineResult ''High Priority'' 0.83
          ''Identified urgency indicators suggesting high priority classification.''
      else if offQuestion normalizedText then
        offlineResult ''Support Request'' 0.80
          ''Text appears to be a question or support request based on structure and keywords.''
      else if offPositive normalizedText then
        offlineResult ''Positive Feedback'' 0.86
          ''Detected positive sentiment and appreciation expressions.''
      else if offIssue normalizedText then
        offlineResult ''Issue Report'' 0.84
          ''Identified problem reporting language and error indicators.''
      else if offSuggestion normalizedText then
        offlineResult ''Feature Request'' 0.78
          ''Found suggestion and improvement-oriented language patterns.''
      else
        offlineResult ''Other'' 0.60
          ''Unable to determine specific category. Content may require manual review.'')"

subsection \<open>The online (simulated) path\<close>

text \<open>The predicates of the online table test \<open>inputText.toLowerCase()\<close> with
  \<open>includes\<close>, in the order of the \<open>if\<close>/\<open>else if\<close> chain of the source.\<close>

definition onUrgency :: "string \<Rightarrow> bool" where
  "onUrgency t =
     (includesStr t ''urgent'' \<or> includesStr t ''emergency'' \<or> includesStr t ''critical'')"

definition onSafety :: "string \<Rightarrow> bool" where
  "onSafety t =
     (includesStr t ''safety'' \<or> includesStr t ''danger'' \<or> includesStr t ''risk'')"

definition onTraffic :: "string \<Rightarrow> bool" where
  "onTraffic t =
     (includesStr t ''road'' \<or> includesStr t ''traffic'' \<or> includesStr t ''transport'')"

definition onEnvironmental :: "string \<Rightarrow> bool" where
  "onEnvironmental t =
     (includesStr t ''environment'' \<or> includesStr t ''pollution'' \<or> includesStr t ''waste'')"

definition onInfrastructure :: "string \<Rightarrow> bool" where
  "onInfrastructure t =
     (includesStr t ''infrastructure'' \<or> includesStr t ''repair'' \<or>
      includesStr t ''maintenance'')"

definition onQuestion :: "string \<Rightarrow> bool" where
  "onQuestion t =
     (includesStr t ''question'' \<or> includesStr t ''help'' \<or> includesStr t ''?'')"

definition onPositive :: "string \<Rightarrow> bool" where
  "onPositive t =
     (includesStr t ''thank'' \<or> includesStr t ''great'' \<or> includesStr t ''excellent'')"

definition onIssue :: "string \<Rightarrow> bool" where
  "onIssue t =
     (includesStr t ''issue'' \<or> includesStr t ''problem'' \<or> includesStr t ''error'')"

definition onSuggestion :: "string \<Rightarrow> bool" where
  "onSuggestion t =
     (includesStr t ''suggestion'' \<or> includesStr t ''improve'' \<or> includesStr t ''feature'')"

definition onlineResult :: "string \<Rightarrow> rat \<Rightarrow> string \<Rightarrow> ClassificationResult" where
  "onlineResult c k r =
     \<lparr>category = c, confidence = k, reasoning = r, isOfflineFallback = None\<rparr>"

text \<open>\<open>mockClassification\<close> is the value the promise of \<open>handleClassify\<close> resolves with,
  when the simulated failure does not fire.\<close>

definition mockClassification :: "string \<Rightarrow> ClassificationResult" where
  "mockClassification inputText =
     (let text0 = toLowerCase inputText in
      if onUrgency text0 then
        onlineResult ''High Priority'' 0.95
          ''High priority indicators detected with strong confidence based on urgency keywords.''
      else if onSafety text0 then
        onlineResult ''Safety Issue'' 0.93
          ''Safety-related content identified through risk assessment keywords.''
      else if onTraffic text0 then
        onlineResult ''Traffic'' 0.90
          ''Transportation and traffic-related content detected.''
      else if onEnvironmental text0 then
        onlineResult ''Environmental'' 0.89
          ''Environmental concerns identified in the text content.''
      else if onInfrastructure text0 then
        onlineResult ''Infrastructure'' 0.87
          ''Infrastructure and maintenance-related terminology found.''
      else if onQuestion text0 then
        onlineResult ''Support Request'' 0.85
          ''Support request identified based on question patterns and help-seeking language.''
      else if onPositive text0 then
        onlineResult ''Positive Feedback'' 0.88
          ''Positive sentiment analysis indicates appreciation or satisfaction.''
      else if onIssue text0 then
        onlineResult ''Issue Report'' 0.86
          ''Problem reporting detected through issue identification keywords.''
      else if onSuggestion text0 then
        onlineResult ''Feature Request'' 0.82
          ''Enhancement suggestions identified through improvement-oriented language.''
      else
        onlineResult ''Other'' 0.8 [])"

subsection \<open>handleClassify\<close>

text \<open>
  The state of the assistant component. \<open>handleClassifyTrace\<close> lists the states the
  component passes through during one invocation, one per synchronous block (the handler
  up to its first \<open>await\<close>, then each timer callback); \<open>handleClassify\<close> is the state
  the invocation ends in. \<open>random\<close> is the value \<open>Math.random()\<close> returns inside the
  promise; the simulated service fails when it is below \<open>0.3\<close>.
\<close>

record assistantState =
  aiInputText :: string
  aiIsLoading :: bool
  aiResult :: "ClassificationResult option"
  aiError :: "string option"
  aiIsOnline :: bool
  aiUseOfflineFallback :: bool

definition handleClassifyTrace :: "rat \<Rightarrow> assistantState \<Rightarrow> assistantState list" where
  "handleClassifyTrace random s =
     (if trim (aiInputText s) = [] then
        [s\<lparr>aiError := Some ''Please enter some text to classify''\<rparr>]
      else
        let s1 = s\<lparr>aiIsLoading := True, aiError := None, aiResult := None\<rparr> in
        if \<not> aiIsOnline s \<or> aiUseOfflineFallback s then
          [s1,
           s1\<lparr>aiResult := Some (offlineClassification (aiInputText s)),
              aiIsLoading := False\<rparr>]
        else if random < 0.3 then
          let s2 = s1\<lparr>aiError :=
                       Some ''AI service unavailable. Using offline classification...''\<rparr>
          in [s1, s2,
              s2\<lparr>aiError := None,
                 aiResult := Some (offlineClassification (aiInputText s)),
                 aiIsLoading := False\<rparr>]
        else
          [s1,
           s1\<lparr>aiResult := Some (mockClassification (aiInputText s)),
              aiIsLoading := False\<rparr>])"

definition handleClassify :: "rat \<Rightarrow> assistantState \<Rightarrow> assistantState" where
  "handleClassify random s = last (handleClassifyTrace random s)"

subsection \<open>The rule tables as the specification describes them\<close>

text \<open>
  The specification describes each classifier as an ordered table of rules, each a keyword
  predicate with a fixed result, and the first rule that matches wins. The tables below
  list the rules of the two chains; \<open>firstMatch\<close> is the policy.
\<close>

datatype ruleKind =
  SafetyRule | InfrastructureRule | EnvironmentalRule | TrafficRule | UrgencyRule
  | QuestionRule | PositiveRule | IssueRule | SuggestionRule

type_synonym classifierRule = "ruleKind \<times> (string \<Rightarrow> bool) \<times> ClassificationResult"

definition ruleKindOf :: "classifierRule \<Rightarrow> ruleKind" where
  "ruleKindOf r = fst r"

definition ruleMatches :: "classifierRule \<Rightarrow> string \<Rightarrow> bool" where
  "ruleMatches r s = fst (snd r) s"

definition ruleResult :: "classifierRule \<Rightarrow> ClassificationResult" where
  "ruleResult r = snd (snd r)"

definition firstMatch ::
  "classifierRule list \<Rightarrow> ClassificationResult \<Rightarrow> string \<Rightarrow> ClassificationResult" where
  "firstMatch rules dflt s =
     (case find (\<lambda>r. ruleMatches r s) rules of None \<Rightarrow> dflt | Some r \<Rightarrow> ruleResult r)"

definition offlineTable :: "classifierRule list" where
  "offlineTable =
     [(SafetyRule, offSafety, offlineResult ''Safety Issue'' 0.92
         ''Detected safety-related keywords and risk indicators in the text.''),
      (InfrastructureRule, offInfrastructure, offlineResult ''Infrastructure'' 0.88
         ''Identified infrastructure and maintenance-related terminology.''),
      (EnvironmentalRule, offEnvironmental, offlineResult ''Environmental'' 0.85
         ''Found environmental and sustainability-related terms.''),
      (TrafficRule, offTraffic, offlineResult ''Traffic'' 0.87
         ''Detected transportation and traffic-related content.''),
      (UrgencyRule, offUrgency, offlineResult ''High Priority'' 0.83
         ''Identified urgency indicators suggesting high priority classification.''),
      (QuestionRule, offQuestion, offlineResult ''Support Request'' 0.80
         ''Text appears to be a question or support request based on structure and keywords.''),
      (PositiveRule, offPositive, offlineResult ''Positive Feedback'' 0.86
         ''Detected positive sentiment and appreciation expressions.''),
      (IssueRule, offIssue, offlineResult ''Issue Report'' 0.84
         ''Identified problem reporting language and error indicators.''),
      (SuggestionRule, offSuggestion, offlineResult ''Feature Request'' 0.78
         ''Found suggestion and improvement-oriented language patterns.'')]"

definition offlineDefault :: ClassificationResult where
  "offlineDefault = offlineResult ''Other'' 0.60
     ''Unable to determine specific category. Content may require manual review.''"

definition onlineTable :: "classifierRule list" where
  "onlineTable =
     [(UrgencyRule, onUrgency, onlineResult ''High Priority'' 0.95
         ''High priority indicators detected with strong confidence based on urgency keywords.''),
      (SafetyRule, onSafety, onlineResult ''Safety Issue'' 0.93
         ''Safety-related content identified through risk assessment keywords.''),
      (TrafficRule, onTraffic, onlineResult ''Traffic'' 0.90
         ''Transportation and traffic-related content detected.''),
      (EnvironmentalRule, onEnvironmental, onlineResult ''Environmental'' 0.89
         ''Environmental concerns identified in the text content.''),
      (InfrastructureRule, onInfrastructure, onlineResult ''Infrastructure'' 0.87
         ''Infrastructure and maintenance-related terminology found.''),
      (QuestionRule, onQuestion, onlineResult ''Support Request'' 0.85
         ''Support request identified based on question patterns and help-seeking language.''),
      (PositiveRule, onPositive, onlineResult ''Positive Feedback'' 0.88
         ''Positive sentiment analysis indicates appreciation or satisfaction.''),
      (IssueRule, onIssue, onlineResult ''Issue Report'' 0.86
         ''Problem reporting detected through issue identification keywords.''),
      (SuggestionRule, onSuggestion, onlineResult ''Feature Request'' 0.82
         ''Enhancement suggestions identified through improvement-oriented language.'')]"

definition onlineDefault :: ClassificationResult where
  "onlineDefault = onlineResult ''Other'' 0.8 []"

text \<open>The order the specification gives for both tables, and a table rearranged into an
  order of kinds.\<close>

definition specOrder :: "ruleKind list" where
  "specOrder =
     [SafetyRule, InfrastructureRule, EnvironmentalRule, TrafficRule, UrgencyRule,
      QuestionRule, PositiveRule, IssueRule, SuggestionRule]"

definition inOrder :: "ruleKind list \<Rightarrow> classifierRule list \<Rightarrow> classifierRule list" where
  "inOrder kinds rules = concat (map (\<lambda>k. filter (\<lambda>r. ruleKindOf r = k) rules) kinds)"

section \<open>The map view (civic-map.tsx)\<close>

subsection \<open>Reports and markers\<close>

text \<open>
  A JavaScript number that the code reads is modelled as a rational. A report is the
  \<open>NewReport\<close> of the source without its optional image file, which no function modelled
  here reads. The marker's \<open>type\<close>, \<open>priority\<close> and \<open>status\<close> are the string unions of the
  interface.
\<close>

datatype incidentType =
  TypeAccident | TypeInfrastructure | TypeSafety | TypeEnvironment | TypeTraffic | TypeOther

datatype markerPriority = PriorityLow | PriorityMedium | PriorityHigh

datatype markerStatus = StatusOpen | StatusInProgress | StatusResolved

record IncidentMarker =
  markerId :: string
  markerLat :: rat
  markerLng :: rat
  markerTitle :: string
  markerDescription :: string
  markerType :: incidentType
  markerPriority :: markerPriority
  markerDate :: string
  markerStatus :: markerStatus

record Coordinates =
  lat :: rat
  lon :: rat

record NewReport =
  reportLocation :: string
  reportCoordinates :: "Coordinates option"
  reportDescription :: string
  reportCategory :: string

definition sampleMarkers :: "IncidentMarker list" where
  "sampleMarkers =
     [\<lparr>markerId = ''1'', markerLat = 10.8505, markerLng = 76.2711,
       markerTitle = ''Road Pothole'',
       markerDescription = ''Large pothole causing traffic disruption on NH47'',
       markerType = TypeInfrastructure, markerPriority = PriorityHigh,
       markerDate = ''2024-01-10'', markerStatus = StatusOpen\<rparr>,
      \<lparr>markerId = ''2'', markerLat = 9.9312, markerLng = 76.2673,
       markerTitle = ''Street Light Outage'',
       markerDescription = ''Multiple street lights not working in residential area'',
       markerType = TypeInfrastructure, markerPriority = PriorityMedium,
       markerDate = ''2024-01-08'', markerStatus = StatusInProgress\<rparr>,
      \<lparr>markerId = ''3'', markerLat = 11.2588, markerLng = 75.7804,
       markerTitle = ''Water Logging'',
       markerDescription = ''Heavy water logging after recent rains'',
       markerType = TypeEnvironment, markerPriority = PriorityHigh,
       markerDate = ''2024-01-05'', markerStatus = StatusOpen\<rparr>,
      \<lparr>markerId = ''4'', markerLat = 8.8932, markerLng = 76.6141,
       markerTitle = ''Traffic Signal Issue'',
       markerDescription = ''Traffic signal malfunctioning during peak hours'',
       markerType = TypeSafety, markerPriority = PriorityHigh,
       markerDate = ''2024-01-12'', markerStatus = StatusResolved\<rparr>,
      \<lparr>markerId = ''5'', markerLat = 10.5276, markerLng = 76.2144,
       markerTitle = ''Waste Accumulation'',
       markerDescription = ''Garbage not collected for over a week'',
       markerType = TypeEnvironment, markerPriority = PriorityMedium,
       markerDate = ''2024-01-07'', markerStatus = StatusOpen\<rparr>]"

text \<open>The decimal digits of a natural number, as a template literal prints it.\<close>

fun showNat :: "nat \<Rightarrow> string" where
  "showNat n =
     (if n < 10 then [char_of (48 + n)]
      else showNat (n div 10) @ [char_of (48 + n mod 10)])"

declare showNat.simps [simp del]

text \<open>What one conversion reads from the clock: \<open>Date.now()\<close> and the date part of
  \<open>new Date().toISOString()\<close>.\<close>

record clockReading =
  dateNow :: nat
  isoDate :: string

definition categoryTypeMap :: "string \<Rightarrow> incidentType option" where
  "categoryTypeMap =
     map_of [(''Safety Issue'', TypeSafety), (''Infrastructure'', TypeInfrastructure),
             (''Environmental'', TypeEnvironment), (''Traffic'', TypeTraffic),
             (''Other'', TypeOther)]"

text \<open>\<open>convertReportToMarker\<close> returns \<open>null\<close> for a report without coordinates; \<open>None\<close>
  is that \<open>null\<close>.\<close>

definition convertReportToMarker ::
  "clockReading \<Rightarrow> NewReport \<Rightarrow> nat \<Rightarrow> IncidentMarker option" where
  "convertReportToMarker clock report index =
     (let reportId = ''report_'' @ showNat (dateNow clock) @ ''_'' @ showNat index in
      case reportCoordinates report of
        None \<Rightarrow> None
      | Some c \<Rightarrow>
          Some \<lparr>markerId = reportId, markerLat = lat c, markerLng = lon c,
                markerTitle = ''New Report: '' @ reportCategory report,
                markerDescription = reportDescription report,
                markerType =
                  (case categoryTypeMap (reportCategory report) of
                     None \<Rightarrow> TypeOther | Some t \<Rightarrow> t),
                markerPriority = PriorityMedium,
                markerDate = isoDate clock,
                markerStatus = StatusOpen\<rparr>)"

text \<open>The effect on \<open>newReports\<close>: map every report with its index, drop the \<open>null\<close>s, and
  put the result after the sample markers. \<open>clock i\<close> is what the conversion of the report
  at index \<open>i\<close> reads from the clock.\<close>

definition newMarkers :: "(nat \<Rightarrow> clockReading) \<Rightarrow> NewReport list \<Rightarrow> IncidentMarker list" where
  "newMarkers clock newReports =
     [m. Some m \<leftarrow> map (\<lambda>(index, report). convertReportToMarker (clock index) report index)
                      (enumerate 0 newReports)]"

definition allMarkers :: "(nat \<Rightarrow> clockReading) \<Rightarrow> NewReport list \<Rightarrow> IncidentMarker list" where
  "allMarkers clock newReports =
     (if newReports \<noteq> [] then sampleMarkers @ newMarkers clock newReports
      else sampleMarkers)"

subsection \<open>The rendering mode of the map\<close>

text \<open>
  The state the map component keeps for its rendering mode. \<open>mapInstance\<close> says whether
  \<open>mapInstanceRef.current\<close> holds a map, \<open>fallbackTimer\<close> whether the two-second timer of the
  \<open>catch\<close> block is pending, and \<open>loadAttempts\<close> counts the times \<open>initializeMap\<close> has
  entered its \<open>try\<close> block and started to load the map library.

  The \<open>div\<close> that carries \<open>mapRef\<close> is rendered only by the last \<open>return\<close> of the
  component, in its online branch; \<open>mapRefMounted\<close> reads that off the render function.
\<close>

record mapState =
  mapIsClient :: bool
  mapIsOnline :: bool
  mapUseOfflineMode :: bool
  mapIsLoading :: bool
  mapError :: "string option"
  mapInstance :: bool
  fallbackTimer :: bool
  loadAttempts :: nat

definition mapRefMounted :: "mapState \<Rightarrow> bool" where
  "mapRefMounted s =
     (mapIsClient s \<and> \<not> (mapError s \<noteq> None \<and> \<not> mapUseOfflineMode s) \<and>
      \<not> (\<not> mapIsOnline s \<or> mapUseOfflineMode s))"

text \<open>\<open>loads k\<close> says whether the \<open>k\<close>-th attempt to load and set up the map library
  succeeds (attempts are counted from 0); a failure is any exception of the \<open>try\<close> block.\<close>

definition initializeMap :: "(nat \<Rightarrow> bool) \<Rightarrow> mapState \<Rightarrow> mapState" where
  "initializeMap loads s =
     (if \<not> mapRefMounted s then s
      else if \<not> mapIsOnline s \<or> mapUseOfflineMode s then s\<lparr>mapIsLoading := False\<rparr>
      else
        let s1 = s\<lparr>mapIsLoading := True, mapError := None,
                   loadAttempts := loadAttempts s + 1\<rparr>
        in if loads (loadAttempts s)
           then s1\<lparr>mapInstance := True, mapIsLoading := False\<rparr>
           else s1\<lparr>mapError := Some ''Failed to load map. Switching to offline mode...'',
                   fallbackTimer := True\<rparr>)"

text \<open>The callback of the timer the \<open>catch\<close> block sets.\<close>

definition fallbackTimeout :: "mapState \<Rightarrow> mapState" where
  "fallbackTimeout s =
     s\<lparr>mapUseOfflineMode := True, mapError := None, mapIsLoading := False,
       fallbackTimer := False\<rparr>"

text \<open>The effect on \<open>[isClient, isOnline, useOfflineMode]\<close>: its cleanup removes the map
  of the previous run, then \<open>initializeMap\<close> runs when the component is on the client.\<close>

definition mapEffect :: "(nat \<Rightarrow> bool) \<Rightarrow> mapState \<Rightarrow> mapState" where
  "mapEffect loads s =
     (let s0 = s\<lparr>mapInstance := False\<rparr>
      in if mapIsClient s0 then initializeMap loads s0 else s0)"

definition mapInitial :: mapState where
  "mapInitial =
     \<lparr>mapIsClient = False, mapIsOnline = True, mapUseOfflineMode = False,
      mapIsLoading = True, mapError = None, mapInstance = False, fallbackTimer = False,
      loadAttempts = 0\<rparr>"

text \<open>The mount effect sets \<open>isClient\<close> and reads \<open>navigator.onLine\<close>.\<close>

definition mapMounted :: "bool \<Rightarrow> mapState" where
  "mapMounted online = mapInitial\<lparr>mapIsClient := True, mapIsOnline := online\<rparr>"

text \<open>
  What the component does by itself, with no user action and no connectivity event: as
  long as the fallback timer is pending it fires, and the change of \<open>useOfflineMode\<close> runs
  the effect again.
\<close>

function settleMap :: "(nat \<Rightarrow> bool) \<Rightarrow> mapState \<Rightarrow> mapState" where
  "settleMap loads s =
     (if fallbackTimer s then settleMap loads (mapEffect loads (fallbackTimeout s)) else s)"
  by pat_completeness auto
termination
proof (relation "measure (\<lambda>(loads, s). if fallbackTimer s then 1 else 0)")
  show "wf (measure (\<lambda>(loads :: nat \<Rightarrow> bool, s). if fallbackTimer s then 1 else (0::nat)))"
    by simp
next
  fix loads :: "nat \<Rightarrow> bool" and s :: mapState
  assume "fallbackTimer s"
  then show "((loads, mapEffect loads (fallbackTimeout s)), (loads, s))
      \<in> measure (\<lambda>(loads, s). if fallbackTimer s then 1 else 0)"
    by (simp add: mapEffect_def fallbackTimeout_def initializeMap_def mapRefMounted_def Let_def)
qed

declare settleMap.simps [simp del]

definition mapSelector :: "(nat \<Rightarrow> bool) \<Rightarrow> bool \<Rightarrow> mapState" where
  "mapSelector loads online = settleMap loads (mapEffect loads (mapMounted online))"

section \<open>The category chart (category-chart.tsx)\<close>








datatype chartView = Pie | Bar | Trend







text \<open>
  The state of the chart component and what it renders: the summary header, which shows
  \<open>analytics.totalReports\<close> and \<open>analytics.mostCommonCategory\<close> in every mode, and the body,
  chosen as the nested conditional of the component chooses it. \<open>scriptLoads\<close> counts the
  loader scripts \<open>loadGoogleCharts\<close> has appended to the document.
\<close>

record chartState =
  chartUseOfflineMode :: bool
  chartIsLoaded :: bool
  chartError :: "string option"
  chartCurrentView :: chartView
  scriptLoads :: nat





text \<open>
  \<open>loadGoogleCharts\<close>, run once by the mount effect. \<open>online\<close> is \<open>navigator.onLine\<close>,
  \<open>present\<close> says whether \<open>window.google.charts\<close> exists already, and \<open>scriptOk\<close> whether the
  loader script loads (\<open>onload\<close>) or fails (\<open>onerror\<close>).
\<close>

definition loadGoogleCharts :: "bool \<Rightarrow> bool \<Rightarrow> bool \<Rightarrow> chartState \<Rightarrow> chartState" where
  "loadGoogleCharts online present scriptOk st =
     (if \<not> online then st\<lparr>chartUseOfflineMode := True\<rparr>
      else if present then st\<lparr>chartIsLoaded := True, chartUseOfflineMode := False\<rparr>
      else
        let st1 = st\<lparr>scriptLoads := scriptLoads st + 1\<rparr>
        in if scriptOk then st1\<lparr>chartIsLoaded := True, chartUseOfflineMode := False\<rparr>
           else st1\<lparr>chartError := Some ''Failed to load Google Charts. Using offline mode.'',
                    chartUseOfflineMode := True\<rparr>)"

definition chartInitial :: chartState where
  "chartInitial =
     \<lparr>chartUseOfflineMode = False, chartIsLoaded = False, chartError = None,
      chartCurrentView = Pie, scriptLoads = 0\<rparr>"

definition chartSelector :: "bool \<Rightarrow> bool \<Rightarrow> bool \<Rightarrow> chartState" where
  "chartSelector online present scriptOk = loadGoogleCharts online present scriptOk chartInitial"

section \<open>The home page (page.tsx)\<close>






section \<open>The analytics dashboard (enhanced-analytics.tsx)\<close>

datatype reportPriority = Low | Medium | High | Critical

datatype reportStatus = Open | InProgress | Resolved | Closed



record ReportLocation =
  latitude :: rat
  longitude :: rat
  address :: string
  city :: string
  state :: string
  country :: string

record Report =
  repId :: string
  repCategory :: string
  repPriority :: reportPriority
  repStatus :: reportStatus
  repLocation :: ReportLocation
  createdAt :: string
  updatedAt :: string
  repTitle :: string
  repDescription :: string





















section \<open>The report form (report-form.tsx)\<close>

subsection \<open>Geocoding\<close>

text \<open>
  One result of the geocoding service, and what one \<open>fetch\<close> of the search loop does:
  it throws (or its body is not JSON), it answers with a status that is not ok, or it
  answers with a list of results. The service is a function from the search query to that
  outcome. \<open>parseFloat\<close> is a parameter, with \<open>None\<close> for \<open>NaN\<close>.
\<close>

record LocationResult =
  display_name :: string
  resultLat :: string
  resultLon :: string
  place_id :: nat

datatype fetchOutcome = FetchThrows | NotOk | OkJson "LocationResult list"

record GeocodedLocation =
  geoLat :: rat
  geoLon :: rat
  geoName :: string

definition keralaNames :: "string list" where
  "keralaNames =
     [''kerala'', ''kochi'', ''thiruvananthapuram'', ''kozhikode'', ''kollam'', ''thrissur'',
      ''palakkad'', ''malappuram'', ''kannur'', ''kasaragod'', ''pathanamthitta'',
      ''alappuzha'', ''kottayam'', ''idukki'', ''ernakulam'', ''wayanad'']"

definition isKeralaResult :: "LocationResult \<Rightarrow> bool" where
  "isKeralaResult r =
     (let displayName = toLowerCase (display_name r)
      in list_ex (\<lambda>name. includesStr displayName name) keralaNames)"

definition inKeralaBounds :: "rat \<Rightarrow> rat \<Rightarrow> bool" where
  "inKeralaBounds la lo = (la \<ge> 8.2 \<and> la \<le> 12.5 \<and> lo \<ge> 74.8 \<and> lo \<le> 77.5)"

text \<open>The loop over the search queries. A failed fetch ends the search (the \<open>catch\<close>
  returns \<open>null\<close>); a status that is not ok, no Kerala result, or a best result outside the
  bounds moves on to the next query.\<close>

fun searchLoop ::
  "(string \<Rightarrow> rat option) \<Rightarrow> (string \<Rightarrow> fetchOutcome) \<Rightarrow> string list
     \<Rightarrow> GeocodedLocation option" where
  "searchLoop parseFloat fetch [] = None"
| "searchLoop parseFloat fetch (searchQuery # rest) =
     (case fetch searchQuery of
        FetchThrows \<Rightarrow> None
      | NotOk \<Rightarrow> searchLoop parseFloat fetch rest
      | OkJson data \<Rightarrow>
          (case filter isKeralaResult data of
             [] \<Rightarrow> searchLoop parseFloat fetch rest
           | best # _ \<Rightarrow>
               (case (parseFloat (resultLat best), parseFloat (resultLon best)) of
                  (Some la, Some lo) \<Rightarrow>
                    if inKeralaBounds la lo
                    then Some \<lparr>geoLat = la, geoLon = lo, geoName = display_name best\<rparr>
                    else searchLoop parseFloat fetch rest
                | _ \<Rightarrow> searchLoop parseFloat fetch rest)))"

definition findBestLocationInKerala ::
  "(string \<Rightarrow> rat option) \<Rightarrow> (string \<Rightarrow> fetchOutcome) \<Rightarrow> string
     \<Rightarrow> GeocodedLocation option" where
  "findBestLocationInKerala parseFloat fetch query =
     (if length query < 2 then None
      else searchLoop parseFloat fetch
             [query @ '', Kerala, India'', query @ '' Kerala'', query @ '', India''])"

subsection \<open>The form and its events\<close>

text \<open>The state of the form, without the image and its preview, which \<open>handleSubmit\<close>
  passes through. \<open>formErrors\<close> is the \<open>errors\<close> object.\<close>

record formState =
  formLocation :: string
  formDescription :: string
  formCategory :: string
  geocodedLocation :: "GeocodedLocation option"
  isSubmitting :: bool
  formErrors :: "string \<rightharpoonup> string"

definition validateForm :: "formState \<Rightarrow> (string \<rightharpoonup> string)" where
  "validateForm s =
     (let e0 = Map.empty;
          e1 = (if trim (formLocation s) = [] then e0(''location'' \<mapsto> ''Location is required'')
                else e0);
          e2 = (if trim (formDescription s) = []
                then e1(''description'' \<mapsto> ''Description is required'')
                else if length (trim (formDescription s)) < 10
                then e1(''description'' \<mapsto> ''Description must be at least 10 characters'')
                else e1);
          e3 = (if formCategory s = [] then e2(''category'' \<mapsto> ''Category is required'')
                else e2)
      in e3)"

definition handleLocationInput :: "string \<Rightarrow> formState \<Rightarrow> formState" where
  "handleLocationInput v s =
     s\<lparr>formLocation := v, geocodedLocation := None,
       formErrors := (formErrors s)(''location'' \<mapsto> [])\<rparr>"

definition resetForm :: "formState \<Rightarrow> formState" where
  "resetForm s =
     s\<lparr>formLocation := [], formDescription := [], formCategory := [],
       geocodedLocation := None, formErrors := Map.empty\<rparr>"

text \<open>
  \<open>handleSubmit\<close> returns the state it leaves and the report it passes to \<open>onSubmit\<close>, if
  it calls it. \<open>callbackThrows\<close> says whether \<open>onSubmit\<close> raises.
\<close>

definition handleSubmit ::
  "(string \<Rightarrow> rat option) \<Rightarrow> (string \<Rightarrow> fetchOutcome) \<Rightarrow> bool \<Rightarrow> formState
     \<Rightarrow> formState \<times> NewReport option" where
  "handleSubmit parseFloat fetch callbackThrows s =
     (let newErrors = validateForm s in
      if newErrors \<noteq> Map.empty then (s\<lparr>formErrors := newErrors\<rparr>, None)
      else
        let s1 = s\<lparr>isSubmitting := True, formErrors := Map.empty\<rparr>;
            coordinates0 =
              map_option (\<lambda>g. \<lparr>lat = geoLat g, lon = geoLon g\<rparr>) (geocodedLocation s);
            name0 = (case geocodedLocation s of
                       Some g \<Rightarrow> if geoName g \<noteq> [] then geoName g else trim (formLocation s)
                     | None \<Rightarrow> trim (formLocation s));
            lookup = (geocodedLocation s = None \<and> trim (formLocation s) \<noteq> []);
            found = (if lookup
                     then findBestLocationInKerala parseFloat fetch (trim (formLocation s))
                     else None);
            s2 = (if lookup
                  then s1\<lparr>formErrors :=
                            (formErrors s1)(''submit'' \<mapsto> ''Finding location coordinates...'')\<rparr>
                  else s1)
        in
        if lookup \<and> found = None then
          (s2\<lparr>formErrors := (formErrors s2)(''location'' \<mapsto>
                  ''Could not find '' @ [CHR 0x22] @ trim (formLocation s) @ [CHR 0x22] @
                  '' in Kerala. Please check the spelling or try a nearby landmark.''),
              isSubmitting := False\<rparr>, None)
        else
          let coordinates =
                (case found of Some f \<Rightarrow> Some \<lparr>lat = geoLat f, lon = geoLon f\<rparr>
                 | None \<Rightarrow> coordinates0);
              finalLocationName = (case found of Some f \<Rightarrow> geoName f | None \<Rightarrow> name0);
              s3 = (case found of Some f \<Rightarrow> s2\<lparr>geocodedLocation := Some f\<rparr> | None \<Rightarrow> s2)
          in
          case coordinates of
            None \<Rightarrow>
              (s3\<lparr>formErrors := (formErrors s3)(''location'' \<mapsto>
                 ''Unable to determine location coordinates. Please try a different location name.''),
                  isSubmitting := False\<rparr>, None)
          | Some c \<Rightarrow>
              let formData =
                    \<lparr>reportLocation = finalLocationName, reportCoordinates = Some c,
                     reportDescription = trim (formDescription s),
                     reportCategory = formCategory s\<rparr>
              in if callbackThrows
                 then (s3\<lparr>formErrors := (formErrors s3)(''submit'' \<mapsto>
                          ''Failed to submit report. Please try again.''),
                          isSubmitting := False\<rparr>, Some formData)
                 else ((resetForm s3)\<lparr>isSubmitting := False\<rparr>, Some formData))"

text \<open>What the user can do to the form, and the reports \<open>onSubmit\<close> receives over a
  sequence of events. Each submission comes with the answers of the geocoding service at
  that moment and with whether the callback raises.\<close>

datatype formEvent =
  LocationInput string
  | DescriptionInput string
  | CategorySelect string
  | Submit "string \<Rightarrow> fetchOutcome" bool

fun formStep ::
  "(string \<Rightarrow> rat option) \<Rightarrow> formEvent \<Rightarrow> formState \<Rightarrow> formState \<times> NewReport option" where
  "formStep parseFloat (LocationInput v) s = (handleLocationInput v s, None)"
| "formStep parseFloat (DescriptionInput v) s =
     (s\<lparr>formDescription := v, formErrors := (formErrors s)(''description'' \<mapsto> [])\<rparr>, None)"
| "formStep parseFloat (CategorySelect v) s =
     (s\<lparr>formCategory := v, formErrors := (formErrors s)(''category'' \<mapsto> [])\<rparr>, None)"
| "formStep parseFloat (Submit fetch callbackThrows) s =
     handleSubmit parseFloat fetch callbackThrows s"

fun runForm ::
  "(string \<Rightarrow> rat option) \<Rightarrow> formEvent list \<Rightarrow> formState \<Rightarrow> NewReport list" where
  "runForm parseFloat [] s = []"
| "runForm parseFloat (ev # evs) s =
     (case formStep parseFloat ev s of
        (s', None) \<Rightarrow> runForm parseFloat evs s'
      | (s', Some report) \<Rightarrow> report # runForm parseFloat evs s')"

definition formInitial :: formState where
  "formInitial =
     \<lparr>formLocation = [], formDescription = [], formCategory = [], geocodedLocation = None,
      isSubmitting = False, formErrors = Map.empty\<rparr>"

section \<open>The offline snapshot (civic-map.tsx)\<close>

subsection \<open>JSON values and their text\<close>

text \<open>
  \<open>saveOfflineData\<close> writes \<open>JSON.stringify(data)\<close> to the local storage and
  \<open>loadOfflineData\<close> reads it back with \<open>JSON.parse\<close>. A JSON value is modelled as a
  tree; an object keeps its members in the order of its properties.

  The text of a number is the platform's business (\<open>Number::toString\<close> prints the shortest
  decimal that reads back as the same number), so printing and reading a number are the
  two functions of a \<open>numberCodec\<close>, a parameter of the model. Everything else of the
  text is modelled here: \<open>stringify\<close> prints without white space and escapes a string as
  \<open>QuoteJSONString\<close> does, and \<open>parseJSON\<close> reads the JSON grammar, white space included.
\<close>

datatype json =
  JNull
  | JBool bool
  | JNum rat
  | JStr string
  | JArr "json list"
  | JObj "(string \<times> json) list"

record numberCodec =
  showNum :: "rat \<Rightarrow> string"
  readNum :: "string \<Rightarrow> (rat \<times> string) option"

definition isDigit :: "char \<Rightarrow> bool" where
  "isDigit c = (let n = (of_char c :: nat) in 48 \<le> n \<and> n \<le> 57)"

definition hexDigit :: "nat \<Rightarrow> char" where
  "hexDigit d = (if d < 10 then char_of (48 + d) else char_of (87 + d))"

definition hexValue :: "char \<Rightarrow> nat option" where
  "hexValue c =
     (let n = (of_char c :: nat)
      in if 48 \<le> n \<and> n \<le> 57 then Some (n - 48)
         else if 97 \<le> n \<and> n \<le> 102 then Some (n - 87)
         else if 65 \<le> n \<and> n \<le> 70 then Some (n - 55)
         else None)"

definition hex4 :: "char \<Rightarrow> char \<Rightarrow> char \<Rightarrow> char \<Rightarrow> nat option" where
  "hex4 h1 h2 h3 h4 =
     (case (hexValue h1, hexValue h2, hexValue h3, hexValue h4) of
        (Some a, Some b, Some c, Some d) \<Rightarrow> Some (((a * 16 + b) * 16 + c) * 16 + d)
      | _ \<Rightarrow> None)"

text \<open>The escapes of a string: the quote (U+0022) and the backslash (U+005C) get a
  backslash, the control characters their short escape or \<open>\u00XX\<close>.\<close>

definition quoteChar :: "char \<Rightarrow> string" where
  "quoteChar c =
     (let n = (of_char c :: nat) in
      if n = 34 then [CHR 0x5C, CHR 0x22]
      else if n = 92 then [CHR 0x5C, CHR 0x5C]
      else if n = 8 then [CHR 0x5C, CHR ''b'']
      else if n = 12 then [CHR 0x5C, CHR ''f'']
      else if n = 10 then [CHR 0x5C, CHR ''n'']
      else if n = 13 then [CHR 0x5C, CHR ''r'']
      else if n = 9 then [CHR 0x5C, CHR ''t'']
      else if n < 32 then
        [CHR 0x5C, CHR ''u'', CHR ''0'', CHR ''0'', hexDigit (n div 16), hexDigit (n mod 16)]
      else [c])"

definition quoteJSONString :: "string \<Rightarrow> string" where
  "quoteJSONString s = CHR 0x22 # concat (map quoteChar s) @ [CHR 0x22]"

fun stringify :: "numberCodec \<Rightarrow> json \<Rightarrow> string"
  and stringifyElems :: "numberCodec \<Rightarrow> json list \<Rightarrow> string"
  and stringifyMembers :: "numberCodec \<Rightarrow> (string \<times> json) list \<Rightarrow> string" where
  "stringify codec JNull = ''null''"
| "stringify codec (JBool b) = (if b then ''true'' else ''false'')"
| "stringify codec (JNum x) = showNum codec x"
| "stringify codec (JStr s) = quoteJSONString s"
| "stringify codec (JArr xs) = CHR ''['' # stringifyElems codec xs"
| "stringify codec (JObj kvs) = CHR ''{'' # stringifyMembers codec kvs"
| "stringifyElems codec [] = '']''"
| "stringifyElems codec (x # xs) =
     stringify codec x @ (if xs = [] then '']'' else CHR '','' # stringifyElems codec xs)"
| "stringifyMembers codec [] = ''}''"
| "stringifyMembers codec ((k, v) # kvs) =
     quoteJSONString k @ CHR '':'' # stringify codec v @
       (if kvs = [] then ''}'' else CHR '','' # stringifyMembers codec kvs)"

text \<open>Reading a string, from the character after its opening quote. A code unit above
  U+00FF is outside the strings of this model, so its escape is refused.\<close>

definition unescape :: "char \<Rightarrow> char option" where
  "unescape e =
     (let n = (of_char e :: nat) in
      if n = 34 \<or> n = 92 \<or> n = 47 then Some e
      else if e = CHR ''b'' then Some (char_of (8::nat))
      else if e = CHR ''f'' then Some (char_of (12::nat))
      else if e = CHR ''n'' then Some (char_of (10::nat))
      else if e = CHR ''r'' then Some (char_of (13::nat))
      else if e = CHR ''t'' then Some (char_of (9::nat))
      else None)"

definition consChar :: "char \<Rightarrow> (string \<times> string) option \<Rightarrow> (string \<times> string) option" where
  "consChar c res = (case res of None \<Rightarrow> None | Some (s, rest) \<Rightarrow> Some (c # s, rest))"

fun parseChars :: "string \<Rightarrow> (string \<times> string) option" where
  "parseChars [] = None"
| "parseChars (c # cs) =
     (if (of_char c :: nat) = 34 then Some ([], cs)
      else if (of_char c :: nat) = 92 then
        (case cs of
           [] \<Rightarrow> None
         | e # es \<Rightarrow>
             if e = CHR ''u'' then
               (case es of
                  h1 # h2 # h3 # h4 # r \<Rightarrow>
                    (case hex4 h1 h2 h3 h4 of
                       None \<Rightarrow> None
                     | Some n \<Rightarrow>
                         if n < 256 then consChar (char_of n) (parseChars r) else None)
                | _ \<Rightarrow> None)
             else
               (case unescape e of
                  None \<Rightarrow> None
                | Some ch \<Rightarrow> consChar ch (parseChars es)))
      else if (of_char c :: nat) < 32 then None
      else consChar c (parseChars cs))"

definition isJsonSpace :: "char \<Rightarrow> bool" where
  "isJsonSpace c = (let n = (of_char c :: nat) in n = 32 \<or> n = 9 \<or> n = 10 \<or> n = 13)"

definition skipSpace :: "string \<Rightarrow> string" where
  "skipSpace s = dropWhile isJsonSpace s"

text \<open>
  The recursive descent over values, the elements of an array after its bracket and the
  members of an object after its brace. The number bounds the depth of the
  recursion; \<open>parseJSON\<close> starts it with the length of the text, which is enough because
  every level reads at least one character (shown below for the texts \<open>stringify\<close>
  prints).
\<close>

fun parseValue :: "numberCodec \<Rightarrow> nat \<Rightarrow> string \<Rightarrow> (json \<times> string) option"
  and parseElems :: "numberCodec \<Rightarrow> nat \<Rightarrow> string \<Rightarrow> (json list \<times> string) option"
  and parseMembers ::
    "numberCodec \<Rightarrow> nat \<Rightarrow> string \<Rightarrow> ((string \<times> json) list \<times> string) option" where
  "parseValue codec 0 s = None"
| "parseValue codec (Suc n) s =
     (case s of
        [] \<Rightarrow> None
      | c # cs \<Rightarrow>
          if c = CHR 0x22 then
            (case parseChars cs of None \<Rightarrow> None | Some (str, r) \<Rightarrow> Some (JStr str, r))
          else if c = CHR ''['' then
            (case skipSpace cs of
               [] \<Rightarrow> None
             | d # ds \<Rightarrow>
                 if d = CHR '']'' then Some (JArr [], ds)
                 else (case parseElems codec n (d # ds) of
                         None \<Rightarrow> None | Some (xs, r) \<Rightarrow> Some (JArr xs, r)))
          else if c = CHR ''{'' then
            (case skipSpace cs of
               [] \<Rightarrow> None
             | d # ds \<Rightarrow>
                 if d = CHR ''}'' then Some (JObj [], ds)
                 else (case parseMembers codec n (d # ds) of
                         None \<Rightarrow> None | Some (kvs, r) \<Rightarrow> Some (JObj kvs, r)))
          else if take 4 s = ''true'' then Some (JBool True, drop 4 s)
          else if take 5 s = ''false'' then Some (JBool False, drop 5 s)
          else if take 4 s = ''null'' then Some (JNull, drop 4 s)
          else if c = CHR ''-'' \<or> isDigit c then
            (case readNum codec s of None \<Rightarrow> None | Some (x, r) \<Rightarrow> Some (JNum x, r))
          else None)"
| "parseElems codec 0 s = None"
| "parseElems codec (Suc n) s =
     (case parseValue codec n s of
        None \<Rightarrow> None
      | Some (v, r) \<Rightarrow>
          (case skipSpace r of
             [] \<Rightarrow> None
           | d # ds \<Rightarrow>
               if d = CHR '','' then
                 (case parseElems codec n (skipSpace ds) of
                    None \<Rightarrow> None | Some (vs, r') \<Rightarrow> Some (v # vs, r'))
               else if d = CHR '']'' then Some ([v], ds)
               else None))"
| "parseMembers codec 0 s = None"
| "parseMembers codec (Suc n) s =
     (case s of
        [] \<Rightarrow> None
      | c # cs \<Rightarrow>
          if c \<noteq> CHR 0x22 then None
          else
            (case parseChars cs of
               None \<Rightarrow> None
             | Some (k, r) \<Rightarrow>
                 (case skipSpace r of
                    [] \<Rightarrow> None
                  | d # ds \<Rightarrow>
                      if d \<noteq> CHR '':'' then None
                      else
                        (case parseValue codec n (skipSpace ds) of
                           None \<Rightarrow> None
                         | Some (v, r') \<Rightarrow>
                             (case skipSpace r' of
                                [] \<Rightarrow> None
                              | e # es \<Rightarrow>
                                  if e = CHR '','' then
                                    (case parseMembers codec n (skipSpace es) of
                                       None \<Rightarrow> None
                                     | Some (kvs, r'') \<Rightarrow> Some ((k, v) # kvs, r''))
                                  else if e = CHR ''}'' then Some ([(k, v)], es)
                                  else None)))))"

definition parseJSON :: "numberCodec \<Rightarrow> string \<Rightarrow> json option" where
  "parseJSON codec s =
     (case parseValue codec (length s) (skipSpace s) of
        None \<Rightarrow> None
      | Some (j, r) \<Rightarrow> if skipSpace r = [] then Some j else None)"

text \<open>
  What the round trip asks of the number codec, for one number: its text starts as a JSON
  number starts, and reading that text, followed by the end of the input or by one of the
  characters that can follow a value, gives the number back and stops there.
\<close>

definition delimited :: "string \<Rightarrow> bool" where
  "delimited r =
     (case r of [] \<Rightarrow> True | d # _ \<Rightarrow> d = CHR '','' \<or> d = CHR '']'' \<or> d = CHR ''}'')"

definition numberRoundTrips :: "numberCodec \<Rightarrow> rat \<Rightarrow> bool" where
  "numberRoundTrips codec x =
     ((case showNum codec x of [] \<Rightarrow> False | c # _ \<Rightarrow> c = CHR ''-'' \<or> isDigit c) \<and>
      (\<forall>r. delimited r \<longrightarrow> readNum codec (showNum codec x @ r) = Some (x, r)))"

fun numbersOf :: "json \<Rightarrow> rat list"
  and numbersOfElems :: "json list \<Rightarrow> rat list"
  and numbersOfMembers :: "(string \<times> json) list \<Rightarrow> rat list" where
  "numbersOf JNull = []"
| "numbersOf (JBool b) = []"
| "numbersOf (JNum x) = [x]"
| "numbersOf (JStr s) = []"
| "numbersOf (JArr xs) = numbersOfElems xs"
| "numbersOf (JObj kvs) = numbersOfMembers kvs"
| "numbersOfElems [] = []"
| "numbersOfElems (x # xs) = numbersOf x @ numbersOfElems xs"
| "numbersOfMembers [] = []"
| "numbersOfMembers ((k, v) # kvs) = numbersOf v @ numbersOfMembers kvs"

text \<open>The characters a JSON value can start with.\<close>

definition startsValue :: "char \<Rightarrow> bool" where
  "startsValue c =
     (c = CHR 0x22 \<or> c = CHR ''['' \<or> c = CHR ''{'' \<or> c = CHR ''t'' \<or> c = CHR ''f'' \<or>
      c = CHR ''n'' \<or> c = CHR ''-'' \<or> isDigit c)"


subsection \<open>The snapshot and the local storage\<close>

record OfflineMapData =
  center :: "rat \<times> rat"
  zoom :: rat
  markers :: "IncidentMarker list"
  lastUpdated :: string

definition typeText :: "incidentType \<Rightarrow> string" where
  "typeText t =
     (case t of TypeAccident \<Rightarrow> ''accident'' | TypeInfrastructure \<Rightarrow> ''infrastructure''
      | TypeSafety \<Rightarrow> ''safety'' | TypeEnvironment \<Rightarrow> ''environment''
      | TypeTraffic \<Rightarrow> ''traffic'' | TypeOther \<Rightarrow> ''other'')"

definition priorityText :: "markerPriority \<Rightarrow> string" where
  "priorityText p =
     (case p of PriorityLow \<Rightarrow> ''low'' | PriorityMedium \<Rightarrow> ''medium''
      | PriorityHigh \<Rightarrow> ''high'')"

definition statusText :: "markerStatus \<Rightarrow> string" where
  "statusText s =
     (case s of StatusOpen \<Rightarrow> ''open'' | StatusInProgress \<Rightarrow> ''in-progress''
      | StatusResolved \<Rightarrow> ''resolved'')"

text \<open>The snapshot as the JSON value \<open>JSON.stringify\<close> sees: the properties in the order
  the object literals of the source list them.\<close>

definition markerToJson :: "IncidentMarker \<Rightarrow> json" where
  "markerToJson m =
     JObj [(''id'', JStr (markerId m)), (''lat'', JNum (markerLat m)),
           (''lng'', JNum (markerLng m)), (''title'', JStr (markerTitle m)),
           (''description'', JStr (markerDescription m)),
           (''type'', JStr (typeText (markerType m))),
           (''priority'', JStr (priorityText (markerPriority m))),
           (''date'', JStr (markerDate m)),
           (''status'', JStr (statusText (markerStatus m)))]"

definition toJson :: "OfflineMapData \<Rightarrow> json" where
  "toJson d =
     JObj [(''center'', JArr [JNum (fst (center d)), JNum (snd (center d))]),
           (''zoom'', JNum (zoom d)),
           (''markers'', JArr (map markerToJson (markers d))),
           (''lastUpdated'', JStr (lastUpdated d))]"

text \<open>
  The browser's side of the store: the number codec, and whether \<open>setItem\<close> takes a
  value or throws (a full or disabled storage). The component's side: the items of the
  local storage and the \<open>offlineData\<close> state, which holds the object passed to
  \<open>saveOfflineData\<close> or the value \<open>JSON.parse\<close> returned; the code does not check its
  shape.
\<close>

record storagePlatform =
  numbers :: numberCodec
  setItemAccepts :: "string \<Rightarrow> bool"

record snapshotStore =
  localStorage :: "string \<rightharpoonup> string"
  offlineData :: "json option"

definition OFFLINE_MAP_KEY :: string where
  "OFFLINE_MAP_KEY = ''surakshamap_offline_data''"

definition saveOfflineData ::
  "storagePlatform \<Rightarrow> OfflineMapData \<Rightarrow> snapshotStore \<Rightarrow> snapshotStore" where
  "saveOfflineData pf data st =
     (let stored = stringify (numbers pf) (toJson data) in
      if setItemAccepts pf stored
      then st\<lparr>localStorage := (localStorage st)(OFFLINE_MAP_KEY \<mapsto> stored),
              offlineData := Some (toJson data)\<rparr>
      else st)"

definition loadOfflineData :: "storagePlatform \<Rightarrow> snapshotStore \<Rightarrow> snapshotStore" where
  "loadOfflineData pf st =
     (case localStorage st OFFLINE_MAP_KEY of
        None \<Rightarrow> st
      | Some storedData \<Rightarrow>
          if storedData = [] then st
          else (case parseJSON (numbers pf) storedData of
                  None \<Rightarrow> st
                | Some data \<Rightarrow> st\<lparr>offlineData := Some data\<rparr>))"

text \<open>A restart of the application keeps the local storage and starts the component with
  no \<open>offlineData\<close>.\<close>

definition restart :: "snapshotStore \<Rightarrow> snapshotStore" where
  "restart st = st\<lparr>offlineData := None\<rparr>"

text \<open>What the views read from \<open>offlineData\<close>: \<open>center[0]\<close> and \<open>center[1]\<close>, \<open>zoom\<close>
  and \<open>markers.length\<close>. A property read gives the last member of that name.\<close>

definition jsonMember :: "string \<Rightarrow> json \<Rightarrow> json option" where
  "jsonMember k j = (case j of JObj kvs \<Rightarrow> map_of (rev kvs) k | _ \<Rightarrow> None)"

definition snapshotCenter :: "json \<Rightarrow> (rat \<times> rat) option" where
  "snapshotCenter j =
     (case jsonMember ''center'' j of
        Some (JArr (JNum a # JNum b # _)) \<Rightarrow> Some (a, b)
      | _ \<Rightarrow> None)"

definition snapshotZoom :: "json \<Rightarrow> rat option" where
  "snapshotZoom j = (case jsonMember ''zoom'' j of Some (JNum z) \<Rightarrow> Some z | _ \<Rightarrow> None)"

definition markerCount :: "json \<Rightarrow> nat option" where
  "markerCount j =
     (case jsonMember ''markers'' j of Some (JArr ms) \<Rightarrow> Some (length ms) | _ \<Rightarrow> None)"

definition loadedCenter :: "snapshotStore \<Rightarrow> (rat \<times> rat) option" where
  "loadedCenter st = (case offlineData st of None \<Rightarrow> None | Some j \<Rightarrow> snapshotCenter j)"

definition loadedZoom :: "snapshotStore \<Rightarrow> rat option" where
  "loadedZoom st = (case offlineData st of None \<Rightarrow> None | Some j \<Rightarrow> snapshotZoom j)"

definition loadedMarkerCount :: "snapshotStore \<Rightarrow> nat option" where
  "loadedMarkerCount st = (case offlineData st of None \<Rightarrow> None | Some j \<Rightarrow> markerCount j)"

section \<open>Predicates of the properties and example inputs\<close>

text \<open>The assistant, online and idle, with a text typed in.\<close>

definition onlineIdle :: "string \<Rightarrow> assistantState" where
  "onlineIdle t =
     \<lparr>aiInputText = t, aiIsLoading = False, aiResult = None, aiError = None,
      aiIsOnline = True, aiUseOfflineFallback = False\<rparr>"

text \<open>A map library none of whose loads succeeds.\<close>

definition alwaysFails :: "nat \<Rightarrow> bool" where
  "alwaysFails k = False"




















text \<open>A report with coordinates inside the Kerala bounds, and a form whose geocoded
  location, if it has one, is inside them.\<close>

definition reportInKerala :: "NewReport \<Rightarrow> bool" where
  "reportInKerala report =
     (case reportCoordinates report of
        None \<Rightarrow> False
      | Some c \<Rightarrow> inKeralaBounds (lat c) (lon c))"

definition geocodedInKerala :: "formState \<Rightarrow> bool" where
  "geocodedInKerala s =
     (case geocodedLocation s of
        None \<Rightarrow> True
      | Some g \<Rightarrow> inKeralaBounds (geoLat g) (geoLon g))"

text \<open>Two geocoding services, one that answers every query with Kochi and one that
  answers with Paris, a \<open>parseFloat\<close> for their coordinates, and a form filled in by the
  user.\<close>

definition kochiService :: "string \<Rightarrow> fetchOutcome" where
  "kochiService searchQuery =
     OkJson [\<lparr>display_name = ''Kochi, Ernakulam, Kerala, India'', resultLat = ''9.9312'',
              resultLon = ''76.2673'', place_id = 1\<rparr>]"

definition parisService :: "string \<Rightarrow> fetchOutcome" where
  "parisService searchQuery =
     OkJson [\<lparr>display_name = ''Paris, Ile-de-France, France'', resultLat = ''48.8566'',
              resultLon = ''2.3522'', place_id = 2\<rparr>]"

definition sampleParseFloat :: "string \<Rightarrow> rat option" where
  "sampleParseFloat s =
     (if s = ''9.9312'' then Some 9.9312
      else if s = ''76.2673'' then Some 76.2673
      else if s = ''48.8566'' then Some 48.8566
      else if s = ''2.3522'' then Some 2.3522
      else None)"

definition filledForm :: formState where
  "filledForm =
     \<lparr>formLocation = ''Kochi'', formDescription = ''Large pothole on NH47'',
      formCategory = ''infrastructure'', geocodedLocation = None, isSubmitting = False,
      formErrors = Map.empty\<rparr>"

text \<open>
  A number codec for the examples: it prints the numbers of the sample snapshot as
  JavaScript prints them, and reads a decimal numeral (an optional sign, digits, and an
  optional fraction).
\<close>

definition digitsValue :: "string \<Rightarrow> nat" where
  "digitsValue ds = foldl (\<lambda>a c. 10 * a + ((of_char c :: nat) - 48)) 0 ds"

definition readDecimal :: "string \<Rightarrow> (rat \<times> string) option" where
  "readDecimal s =
     (let negative = (case s of [] \<Rightarrow> False | c # _ \<Rightarrow> c = CHR ''-'');
          s1 = (if negative then tl s else s);
          whole = takeWhile isDigit s1;
          s2 = dropWhile isDigit s1;
          hasFraction = (case s2 of [] \<Rightarrow> False
                         | d # ds \<Rightarrow> d = CHR ''.'' \<and> takeWhile isDigit ds \<noteq> []);
          fraction = (if hasFraction then takeWhile isDigit (tl s2) else []);
          s3 = (if hasFraction then dropWhile isDigit (tl s2) else s2);
          v = of_nat (digitsValue whole) + of_nat (digitsValue fraction) / 10 ^ length fraction
      in if whole = [] then None else Some (if negative then - v else v, s3))"

definition sampleShowNum :: "rat \<Rightarrow> string" where
  "sampleShowNum x =
     (if x = 10.85 then ''10.85''
      else if x = 76.27 then ''76.27''
      else if x = 7 then ''7''
      else if x = 9.9312 then ''9.9312''
      else if x = 76.2673 then ''76.2673''
      else ''0'')"

definition sampleCodec :: numberCodec where
  "sampleCodec = \<lparr>showNum = sampleShowNum, readNum = readDecimal\<rparr>"

definition samplePlatform :: storagePlatform where
  "samplePlatform = \<lparr>numbers = sampleCodec, setItemAccepts = (\<lambda>v. length v \<le> 5000000)\<rparr>"

definition sampleSnapshot :: OfflineMapData where
  "sampleSnapshot =
     \<lparr>center = (10.85, 76.27), zoom = 7,
      markers =
        [\<lparr>markerId = ''2'', markerLat = 9.9312, markerLng = 76.2673,
          markerTitle = ''Street Light Outage'',
          markerDescription = ''Multiple street lights not working in residential area'',
          markerType = TypeInfrastructure, markerPriority = PriorityMedium,
          markerDate = ''2024-01-08'', markerStatus = StatusInProgress\<rparr>],
      lastUpdated = ''2024-01-12T06:30:00.000Z''\<rparr>"

definition emptyStore :: snapshotStore where
  "emptyStore = \<lparr>localStorage = Map.empty, offlineData = None\<rparr>"

section \<open>Properties of the classifier\<close>

lemma offlineClassification_firstMatch:
  "offlineClassification t = firstMatch offlineTable offlineDefault (trim (toLowerCase t))"
  by (simp add: offlineClassification_def firstMatch_def offlineTable_def offlineDefault_def
      ruleMatches_def ruleResult_def Let_def)

lemma mockClassification_firstMatch:
  "mockClassification t = firstMatch onlineTable onlineDefault (toLowerCase t)"
  by (simp add: mockClassification_def firstMatch_def onlineTable_def onlineDefault_def
      ruleMatches_def ruleResult_def Let_def)

lemma firstMatch_earliest:
  assumes "i < length rules" and "ruleMatches (rules ! i) s"
    and "\<forall>j<i. \<not> ruleMatches (rules ! j) s"
  shows "firstMatch rules dflt s = ruleResult (rules ! i)"
proof -
  have "find (\<lambda>r. ruleMatches r s) rules = Some (rules ! i)"
    using assms by (auto simp: find_Some_iff)
  then show ?thesis by (simp add: firstMatch_def)
qed

lemma firstMatch_none:
  assumes "\<not> list_ex (\<lambda>r. ruleMatches r s) rules"
  shows "firstMatch rules dflt s = dflt"
proof -
  have "find (\<lambda>r. ruleMatches r s) rules = None"
    using assms by (auto simp: find_None_iff list_ex_iff)
  then show ?thesis by (simp add: firstMatch_def)
qed

lemma scanWords_mono:
  "set ws \<subseteq> set ws' \<Longrightarrow> scanWords ws prev s \<Longrightarrow> scanWords ws' prev s"
  by (induction s arbitrary: prev) (auto simp: list_ex_iff)

lemma matchWords_mono: "set ws \<subseteq> set ws' \<Longrightarrow> matchWords ws s \<Longrightarrow> matchWords ws' s"
  unfolding matchWords_def by (rule scanWords_mono)

text \<open>
  C3. The offline classifier follows the first-match policy: when the normalized text
  matches the rule at position \<open>i\<close> of the table and no rule before it, the result is the
  result of that rule, whatever later rules match as well. In particular a text whose
  normalized form has both the word \<open>danger\<close> and the word \<open>pothole\<close> matches the
  infrastructure rule too and is still classified as a safety issue.
\<close>

theorem offline_first_match:
  "(i < length offlineTable \<and> ruleMatches (offlineTable ! i) (trim (toLowerCase t)) \<and>
    (\<forall>j<i. \<not> ruleMatches (offlineTable ! j) (trim (toLowerCase t)))
      \<longrightarrow> offlineClassification t = ruleResult (offlineTable ! i)) \<and>
   (matchWords [''danger''] (trim (toLowerCase t)) \<and>
    matchWords [''pothole''] (trim (toLowerCase t))
      \<longrightarrow> offInfrastructure (trim (toLowerCase t)) \<and>
          category (offlineClassification t) = ''Safety Issue'')"
proof (intro conjI impI)
  assume "i < length offlineTable \<and> ruleMatches (offlineTable ! i) (trim (toLowerCase t)) \<and>
    (\<forall>j<i. \<not> ruleMatches (offlineTable ! j) (trim (toLowerCase t)))"
  then show "offlineClassification t = ruleResult (offlineTable ! i)"
    by (simp add: offlineClassification_firstMatch firstMatch_earliest)
next
  assume a: "matchWords [''danger''] (trim (toLowerCase t)) \<and>
    matchWords [''pothole''] (trim (toLowerCase t))"
  then show "offInfrastructure (trim (toLowerCase t))"
    unfolding offInfrastructure_def
    by (auto intro: matchWords_mono[rotated] simp: infrastructureWords_def)
  from a have "offSafety (trim (toLowerCase t))"
    unfolding offSafety_def
    by (auto intro: matchWords_mono[rotated] simp: safetyWords_def)
  then show "category (offlineClassification t) = ''Safety Issue''"
    by (simp add: offlineClassification_def Let_def offlineResult_def)
qed

theorem offline_first_match_witness:
  "ruleMatches (offlineTable ! 0) (trim (toLowerCase ''Danger: huge pothole!'')) \<and>
   ruleMatches (offlineTable ! 1) (trim (toLowerCase ''Danger: huge pothole!'')) \<and>
   offlineClassification ''Danger: huge pothole!'' = ruleResult (offlineTable ! 0) \<and>
   matchWords [''danger''] (trim (toLowerCase ''Danger: huge pothole!'')) \<and>
   matchWords [''pothole''] (trim (toLowerCase ''Danger: huge pothole!'')) \<and>
   category (offlineClassification ''Danger: huge pothole!'') = ''Safety Issue''"
proof -
  have h0: "ruleMatches (offlineTable ! 0) (trim (toLowerCase ''Danger: huge pothole!''))"
    by code_simp
  have h1: "ruleMatches (offlineTable ! 1) (trim (toLowerCase ''Danger: huge pothole!''))"
    by code_simp
  have d: "matchWords [''danger''] (trim (toLowerCase ''Danger: huge pothole!''))"
    by code_simp
  have p: "matchWords [''pothole''] (trim (toLowerCase ''Danger: huge pothole!''))"
    by code_simp
  have l: "(0::nat) < length offlineTable"
    by (simp add: offlineTable_def)
  have r: "offlineClassification ''Danger: huge pothole!'' = ruleResult (offlineTable ! 0)"
    using offline_first_match [of 0 "''Danger: huge pothole!''"] h0 l by simp
  have c: "category (offlineClassification ''Danger: huge pothole!'') = ''Safety Issue''"
    using offline_first_match [of 0 "''Danger: huge pothole!''"] d p by blast
  show ?thesis
    using h0 h1 d p r c by blast
qed

text \<open>
  C4 (amended). Each classifier returns the result of the first rule of its own table
  that matches, and the default when none does. The offline table lists its rules in the
  order safety, infrastructure, environmental, traffic, urgency, question, positive
  feedback, issue, suggestion. The online table has another order: urgency, safety,
  traffic, environmental, infrastructure, question, positive feedback, issue, suggestion.
\<close>

theorem classifier_table_orders:
  "offlineClassification t = firstMatch offlineTable offlineDefault (trim (toLowerCase t)) \<and>
   map ruleKindOf offlineTable =
     [SafetyRule, InfrastructureRule, EnvironmentalRule, TrafficRule, UrgencyRule,
      QuestionRule, PositiveRule, IssueRule, SuggestionRule] \<and>
   mockClassification t = firstMatch onlineTable onlineDefault (toLowerCase t) \<and>
   map ruleKindOf onlineTable =
     [UrgencyRule, SafetyRule, TrafficRule, EnvironmentalRule, InfrastructureRule,
      QuestionRule, PositiveRule, IssueRule, SuggestionRule]"
proof (intro conjI)
  show "offlineClassification t = firstMatch offlineTable offlineDefault (trim (toLowerCase t))"
    by (rule offlineClassification_firstMatch)
  show "mockClassification t = firstMatch onlineTable onlineDefault (toLowerCase t)"
    by (rule mockClassification_firstMatch)
  show "map ruleKindOf offlineTable =
     [SafetyRule, InfrastructureRule, EnvironmentalRule, TrafficRule, UrgencyRule,
      QuestionRule, PositiveRule, IssueRule, SuggestionRule]"
    by (simp add: offlineTable_def ruleKindOf_def)
  show "map ruleKindOf onlineTable =
     [UrgencyRule, SafetyRule, TrafficRule, EnvironmentalRule, InfrastructureRule,
      QuestionRule, PositiveRule, IssueRule, SuggestionRule]"
    by (simp add: onlineTable_def ruleKindOf_def)
qed

text \<open>
  C4 as stated fails for the online table: on \<open>urgent danger\<close> the online chain answers
  with its urgency rule, while the first match in the order safety, infrastructure, ...,
  urgency, ... over the same predicates is the safety rule.
\<close>

theorem online_order_counterexample:
  "map ruleKindOf (inOrder specOrder onlineTable) = specOrder \<and>
   category (mockClassification ''urgent danger'') = ''High Priority'' \<and>
   category (firstMatch (inOrder specOrder onlineTable) onlineDefault
               (toLowerCase ''urgent danger'')) = ''Safety Issue''"
proof (intro conjI)
  show "map ruleKindOf (inOrder specOrder onlineTable) = specOrder"
    by (simp add: inOrder_def specOrder_def onlineTable_def ruleKindOf_def)
  show "category (mockClassification ''urgent danger'') = ''High Priority''"
    by code_simp
  show "category (firstMatch (inOrder specOrder onlineTable) onlineDefault
               (toLowerCase ''urgent danger'')) = ''Safety Issue''"
    by code_simp
qed

text \<open>
  C5 (amended). A text that matches no rule of the offline table gets the offline default:
  category \<open>Other\<close>, confidence 0.60 and the fallback flag set. A text that matches no rule
  of the online table gets, from the online path, category \<open>Other\<close> with confidence 0.8, an
  empty rationale and no fallback flag.
\<close>

theorem classifier_defaults:
  "(\<not> list_ex (\<lambda>r. ruleMatches r (trim (toLowerCase t))) offlineTable \<longrightarrow>
      offlineClassification t =
        \<lparr>category = ''Other'', confidence = 0.60,
         reasoning =
           ''Unable to determine specific category. Content may require manual review.'',
         isOfflineFallback = Some True\<rparr>) \<and>
   (\<not> list_ex (\<lambda>r. ruleMatches r (toLowerCase t)) onlineTable \<longrightarrow>
      mockClassification t =
        \<lparr>category = ''Other'', confidence = 0.8, reasoning = [],
         isOfflineFallback = None\<rparr>)"
  by (simp add: offlineClassification_firstMatch mockClassification_firstMatch
      firstMatch_none offlineDefault_def onlineDefault_def offlineResult_def onlineResult_def)

theorem classifier_defaults_witness:
  "\<not> list_ex (\<lambda>r. ruleMatches r (trim (toLowerCase ''xyz123 lorem ipsum''))) offlineTable \<and>
   offlineClassification ''xyz123 lorem ipsum'' =
     \<lparr>category = ''Other'', confidence = 0.60,
      reasoning =
        ''Unable to determine specific category. Content may require manual review.'',
      isOfflineFallback = Some True\<rparr> \<and>
   \<not> list_ex (\<lambda>r. ruleMatches r (toLowerCase ''xyz123 lorem ipsum'')) onlineTable \<and>
   mockClassification ''xyz123 lorem ipsum'' =
     \<lparr>category = ''Other'', confidence = 0.8, reasoning = [], isOfflineFallback = None\<rparr>"
proof -
  have a: "\<not> list_ex (\<lambda>r. ruleMatches r (trim (toLowerCase ''xyz123 lorem ipsum'')))
             offlineTable"
    by code_simp
  have b: "\<not> list_ex (\<lambda>r. ruleMatches r (toLowerCase ''xyz123 lorem ipsum'')) onlineTable"
    by code_simp
  show ?thesis
    using classifier_defaults [of "''xyz123 lorem ipsum''"] a b by blast
qed

text \<open>
  C5 as stated fails on the online path: online, with the fallback mode off and the
  simulated service up (\<open>Math.random()\<close> gives \<open>1/2\<close>), the classification of
  \<open>xyz123 lorem ipsum\<close> ends with confidence 0.8 and without the fallback flag.
\<close>

theorem online_default_counterexample:
  "map_option confidence (aiResult (handleClassify (1 / 2) (onlineIdle ''xyz123 lorem ipsum'')))
     = Some 0.8 \<and>
   map_option isOfflineFallback
     (aiResult (handleClassify (1 / 2) (onlineIdle ''xyz123 lorem ipsum''))) = Some None \<and>
   map_option confidence (aiResult (handleClassify (1 / 2) (onlineIdle ''xyz123 lorem ipsum'')))
     \<noteq> Some 0.60"
  by code_simp

text \<open>
  C6. When the simulated failure of the online path fires (the text is not blank, the
  component is online with the fallback mode off, and \<open>Math.random()\<close> is below 0.3), the
  invocation ends with the result of the offline classifier and with no error. More
  generally every invocation on a text that is not blank ends with a result, no error and
  the loading flag cleared. (A blank text is refused by the input check before any
  classification starts.)
\<close>

theorem failure_is_recoverable:
  "(trim (aiInputText s) \<noteq> [] \<and> aiIsOnline s \<and> \<not> aiUseOfflineFallback s \<and> random < 0.3
      \<longrightarrow> aiResult (handleClassify random s) = Some (offlineClassification (aiInputText s)) \<and>
          aiError (handleClassify random s) = None \<and>
          \<not> aiIsLoading (handleClassify random s)) \<and>
   (trim (aiInputText s) \<noteq> []
      \<longrightarrow> aiResult (handleClassify random s) \<noteq> None \<and>
          aiError (handleClassify random s) = None \<and>
          \<not> aiIsLoading (handleClassify random s))"
  by (simp add: handleClassify_def handleClassifyTrace_def Let_def)

theorem failure_is_recoverable_witness:
  "trim (aiInputText (onlineIdle ''fire on the bridge'')) \<noteq> [] \<and>
   aiIsOnline (onlineIdle ''fire on the bridge'') \<and>
   \<not> aiUseOfflineFallback (onlineIdle ''fire on the bridge'') \<and>
   (1 / 10 :: rat) < 0.3 \<and>
   aiResult (handleClassify (1 / 10) (onlineIdle ''fire on the bridge''))
     = Some (offlineClassification ''fire on the bridge'') \<and>
   aiError (handleClassify (1 / 10) (onlineIdle ''fire on the bridge'')) = None \<and>
   \<not> aiIsLoading (handleClassify (1 / 10) (onlineIdle ''fire on the bridge'')) \<and>
   category (offlineClassification ''fire on the bridge'') = ''Safety Issue''"
proof -
  have t: "trim (aiInputText (onlineIdle ''fire on the bridge'')) \<noteq> []"
    by code_simp
  have o: "aiIsOnline (onlineIdle ''fire on the bridge'') \<and>
           \<not> aiUseOfflineFallback (onlineIdle ''fire on the bridge'')"
    by (simp add: onlineIdle_def)
  have i: "aiInputText (onlineIdle ''fire on the bridge'') = ''fire on the bridge''"
    by (simp add: onlineIdle_def)
  have r: "(1 / 10 :: rat) < 0.3" by simp
  have c: "category (offlineClassification ''fire on the bridge'') = ''Safety Issue''"
    by code_simp
  show ?thesis
    using failure_is_recoverable [of "onlineIdle ''fire on the bridge''" "1 / 10"] t o i r c
    by simp
qed

section \<open>Properties of the rendering mode selectors\<close>

lemma settleMap_idle: "\<not> fallbackTimer s \<Longrightarrow> settleMap loads s = s"
  by (subst settleMap.simps) simp

lemma mapEffect_after_timeout:
  "mapEffect loads (fallbackTimeout s) = (fallbackTimeout s)\<lparr>mapInstance := False\<rparr>"
  by (simp add: mapEffect_def fallbackTimeout_def initializeMap_def mapRefMounted_def Let_def)

lemma settleMap_pending:
  assumes t: "fallbackTimer s"
  shows "settleMap loads s = (fallbackTimeout s)\<lparr>mapInstance := False\<rparr>"
proof -
  have n: "\<not> fallbackTimer ((fallbackTimeout s)\<lparr>mapInstance := False\<rparr>)"
    by (simp add: fallbackTimeout_def)
  have "settleMap loads s = settleMap loads (mapEffect loads (fallbackTimeout s))"
    using t by (subst settleMap.simps) (simp only: if_True)
  also have "\<dots> = settleMap loads ((fallbackTimeout s)\<lparr>mapInstance := False\<rparr>)"
    by (simp only: mapEffect_after_timeout)
  also have "\<dots> = (fallbackTimeout s)\<lparr>mapInstance := False\<rparr>"
    by (rule settleMap_idle [OF n])
  finally show ?thesis .
qed

lemma settleMap_attempts: "loadAttempts (settleMap loads s) = loadAttempts s"
proof (cases "fallbackTimer s")
  case True
  then show ?thesis by (simp add: settleMap_pending fallbackTimeout_def)
next
  case False
  then show ?thesis by (simp add: settleMap_idle)
qed


lemma mapEffect_mounted_online:
  "mapEffect loads (mapMounted True) =
     (if loads 0
      then \<lparr>mapIsClient = True, mapIsOnline = True, mapUseOfflineMode = False,
            mapIsLoading = False, mapError = None, mapInstance = True,
            fallbackTimer = False, loadAttempts = 1\<rparr>
      else \<lparr>mapIsClient = True, mapIsOnline = True, mapUseOfflineMode = False,
            mapIsLoading = True,
            mapError = Some ''Failed to load map. Switching to offline mode...'',
            mapInstance = False, fallbackTimer = True, loadAttempts = 1\<rparr>)"
  by (simp add: mapMounted_def mapInitial_def mapEffect_def initializeMap_def
      mapRefMounted_def Let_def)

lemma mapEffect_mounted_offline:
  "mapEffect loads (mapMounted False) = mapMounted False"
  by (simp add: mapMounted_def mapInitial_def mapEffect_def initializeMap_def
      mapRefMounted_def Let_def)

lemma mapSelector_first_failure:
  assumes "\<not> loads 0"
  shows "mapSelector loads True =
     \<lparr>mapIsClient = True, mapIsOnline = True, mapUseOfflineMode = True,
      mapIsLoading = False, mapError = None, mapInstance = False, fallbackTimer = False,
      loadAttempts = 1\<rparr>"
  using assms
  by (simp add: mapSelector_def mapEffect_mounted_online settleMap_pending fallbackTimeout_def)

lemma mapMounted_attempts: "loadAttempts (mapMounted online) = 0"
  by (simp add: mapMounted_def mapInitial_def)

lemma mapSelector_attempts: "loadAttempts (mapSelector loads online) \<le> 1"
proof (cases online)
  case True
  then show ?thesis
    by (simp add: mapSelector_def settleMap_attempts mapEffect_mounted_online)
next
  case False
  then show ?thesis
    by (simp add: mapSelector_def settleMap_attempts mapEffect_mounted_offline
        mapMounted_attempts)
qed

text \<open>
  C7 (amended). When the first load of the map library fails, the map component ends in
  its offline mode, with the error cleared and nothing pending, after one load attempt:
  the effect that runs again when the fallback timer fires does not load the library.
  Whatever the loads do, the component makes at most one attempt by itself. The chart
  component, when its loader script fails, is in offline mode at once, after appending one
  script, and never appends more than one by itself.
\<close>

theorem fallback_without_retry:
  "(\<not> loads 0 \<longrightarrow>
      mapUseOfflineMode (mapSelector loads True) \<and>
      mapError (mapSelector loads True) = None \<and>
      \<not> mapIsLoading (mapSelector loads True) \<and>
      \<not> fallbackTimer (mapSelector loads True) \<and>
      loadAttempts (mapSelector loads True) = 1) \<and>
   loadAttempts (mapSelector loads online) \<le> 1 \<and>
   chartUseOfflineMode (chartSelector True False False) \<and>
   scriptLoads (chartSelector True False False) = 1 \<and>
   scriptLoads (chartSelector online present scriptOk) \<le> 1"
proof (intro conjI impI)
  assume f: "\<not> loads 0"
  show "mapUseOfflineMode (mapSelector loads True)"
    and "mapError (mapSelector loads True) = None"
    and "\<not> mapIsLoading (mapSelector loads True)"
    and "\<not> fallbackTimer (mapSelector loads True)"
    and "loadAttempts (mapSelector loads True) = 1"
    using f by (simp_all add: mapSelector_first_failure)
next
  show "loadAttempts (mapSelector loads online) \<le> 1"
    by (rule mapSelector_attempts)
next
  show "chartUseOfflineMode (chartSelector True False False)"
    by (simp add: chartSelector_def loadGoogleCharts_def chartInitial_def Let_def)
next
  show "scriptLoads (chartSelector True False False) = 1"
    by (simp add: chartSelector_def loadGoogleCharts_def chartInitial_def Let_def)
next
  show "scriptLoads (chartSelector online present scriptOk) \<le> 1"
    by (simp add: chartSelector_def loadGoogleCharts_def chartInitial_def Let_def)
qed

theorem fallback_without_retry_witness:
  "\<not> alwaysFails 0 \<and> \<not> alwaysFails 1 \<and>
   mapUseOfflineMode (mapSelector alwaysFails True) \<and>
   loadAttempts (mapSelector alwaysFails True) = 1"
  using fallback_without_retry [of alwaysFails True]
  by (simp add: alwaysFails_def)

text \<open>
  C7 as stated fails: with every load failing, so also two in a row, neither component
  makes the second attempt that one automatic retry would be.
\<close>

theorem one_retry_counterexample:
  "\<not> alwaysFails 0 \<and> \<not> alwaysFails 1 \<and>
   loadAttempts (mapSelector alwaysFails True) \<noteq> 2 \<and>
   scriptLoads (chartSelector True False False) \<noteq> 2"
  by (simp add: alwaysFails_def mapSelector_first_failure chartSelector_def
      loadGoogleCharts_def chartInitial_def Let_def)

section \<open>Properties of the report normalizer\<close>

lemma convert_None_iff:
  "convertReportToMarker clock report index = None \<longleftrightarrow> reportCoordinates report = None"
  by (simp add: convertReportToMarker_def Let_def split: option.splits)

lemma convert_coords:
  "convertReportToMarker clock report index = Some m \<Longrightarrow>
   reportCoordinates report = Some \<lparr>lat = markerLat m, lon = markerLng m\<rparr>"
  by (auto simp: convertReportToMarker_def Let_def split: option.splits)

lemma newMarkers_enumerate_length:
  "length [m. Some m \<leftarrow> map (\<lambda>(index, report). convertReportToMarker (clock index) report index)
                          (enumerate n rs)]
   = length (filter (\<lambda>r. reportCoordinates r \<noteq> None) rs)"
proof (induction rs arbitrary: n)
  case Nil
  then show ?case by simp
next
  case (Cons r rs)
  show ?case
  proof (cases "reportCoordinates r")
    case None
    then have "convertReportToMarker (clock n) r n = None"
      by (simp add: convert_None_iff)
    with None Cons.IH [of "Suc n"] show ?thesis by simp
  next
    case (Some c)
    then obtain m where "convertReportToMarker (clock n) r n = Some m"
      using convert_None_iff [of "clock n" r n] by auto
    with Some Cons.IH [of "Suc n"] show ?thesis by simp
  qed
qed

lemma newMarkers_enumerate_coords:
  "map (\<lambda>m. \<lparr>lat = markerLat m, lon = markerLng m\<rparr>)
     [m. Some m \<leftarrow> map (\<lambda>(index, report). convertReportToMarker (clock index) report index)
                      (enumerate n rs)]
   = [c. Some c \<leftarrow> map reportCoordinates rs]"
proof (induction rs arbitrary: n)
  case Nil
  then show ?case by simp
next
  case (Cons r rs)
  show ?case
  proof (cases "convertReportToMarker (clock n) r n")
    case None
    then have "reportCoordinates r = None"
      by (simp add: convert_None_iff)
    with None Cons.IH [of "Suc n"] show ?thesis by simp
  next
    case (Some m)
    then have "reportCoordinates r = Some \<lparr>lat = markerLat m, lon = markerLng m\<rparr>"
      by (rule convert_coords)
    with Some Cons.IH [of "Suc n"] show ?thesis by simp
  qed
qed

text \<open>
  C2. The conversion of a report yields no marker exactly when the report has no
  coordinates. Over a batch, the new markers are as many as the reports that carry
  coordinates, they carry the coordinates of those reports in the order of the batch, and
  the marker list of the map is the sample markers followed by them: a report without
  coordinates leaves no marker and does not stop the conversion of the others.
\<close>

theorem one_marker_per_located_report:
  "(convertReportToMarker clock1 report index = None \<longleftrightarrow> reportCoordinates report = None) \<and>
   length (newMarkers clock newReports)
     = length (filter (\<lambda>r. reportCoordinates r \<noteq> None) newReports) \<and>
   map (\<lambda>m. \<lparr>lat = markerLat m, lon = markerLng m\<rparr>) (newMarkers clock newReports)
     = [c. Some c \<leftarrow> map reportCoordinates newReports] \<and>
   allMarkers clock newReports = sampleMarkers @ newMarkers clock newReports"
proof (intro conjI)
  show "convertReportToMarker clock1 report index = None \<longleftrightarrow> reportCoordinates report = None"
    by (rule convert_None_iff)
  show "length (newMarkers clock newReports)
     = length (filter (\<lambda>r. reportCoordinates r \<noteq> None) newReports)"
    unfolding newMarkers_def by (rule newMarkers_enumerate_length)
  show "map (\<lambda>m. \<lparr>lat = markerLat m, lon = markerLng m\<rparr>) (newMarkers clock newReports)
     = [c. Some c \<leftarrow> map reportCoordinates newReports]"
    unfolding newMarkers_def by (rule newMarkers_enumerate_coords)
  show "allMarkers clock newReports = sampleMarkers @ newMarkers clock newReports"
    by (simp add: allMarkers_def newMarkers_def)
qed

section \<open>Properties of the category chart\<close>

































section \<open>Properties of the aggregation\<close>












section \<open>Properties of the report form\<close>

lemma searchLoop_inBounds:
  "searchLoop pf fetch qs = Some g \<Longrightarrow> inKeralaBounds (geoLat g) (geoLon g)"
proof (induction qs)
  case Nil
  then show ?case by simp
next
  case (Cons q qs)
  then show ?case
    by (auto split: fetchOutcome.splits list.splits option.splits if_splits)
qed

lemma findBest_inBounds:
  "findBestLocationInKerala pf fetch query = Some g \<Longrightarrow> inKeralaBounds (geoLat g) (geoLon g)"
  unfolding findBestLocationInKerala_def
  by (metis option.distinct(1) searchLoop_inBounds)

lemma handleSubmit_report:
  assumes "geocodedInKerala s" and "handleSubmit pf fetch cb s = (s', Some report)"
  shows "reportInKerala report"
proof (cases "geocodedLocation s")
  case None
  show ?thesis
  proof (cases "findBestLocationInKerala pf fetch (trim (formLocation s))")
    case N: None
    with None assms(2) show ?thesis
      by (auto simp: handleSubmit_def Let_def split: if_splits)
  next
    case (Some f)
    then have "inKeralaBounds (geoLat f) (geoLon f)"
      by (rule findBest_inBounds)
    with None Some assms(2) show ?thesis
      by (auto simp: handleSubmit_def Let_def reportInKerala_def split: if_splits)
  qed
next
  case (Some g)
  with assms(1) have "inKeralaBounds (geoLat g) (geoLon g)"
    by (simp add: geocodedInKerala_def)
  with Some assms(2) show ?thesis
    by (auto simp: handleSubmit_def Let_def reportInKerala_def split: if_splits)
qed

lemma handleSubmit_invariant:
  assumes "geocodedInKerala s" and "handleSubmit pf fetch cb s = (s', out)"
  shows "geocodedInKerala s'"
proof (cases "geocodedLocation s")
  case None
  show ?thesis
  proof (cases "findBestLocationInKerala pf fetch (trim (formLocation s))")
    case N: None
    with None assms(2) show ?thesis
      by (auto simp: handleSubmit_def Let_def geocodedInKerala_def resetForm_def
          split: if_splits)
  next
    case (Some f)
    then have "inKeralaBounds (geoLat f) (geoLon f)"
      by (rule findBest_inBounds)
    with None Some assms(2) show ?thesis
      by (auto simp: handleSubmit_def Let_def geocodedInKerala_def resetForm_def
          split: if_splits)
  qed
next
  case (Some g)
  with assms(1) have "inKeralaBounds (geoLat g) (geoLon g)"
    by (simp add: geocodedInKerala_def)
  with Some assms(2) show ?thesis
    by (auto simp: handleSubmit_def Let_def geocodedInKerala_def resetForm_def
        split: if_splits)
qed

lemma formStep_invariant:
  assumes "geocodedInKerala s" and "formStep pf ev s = (s', out)"
  shows "geocodedInKerala s'"
proof (cases ev)
  case (Submit fetch cb)
  with assms show ?thesis by (auto dest: handleSubmit_invariant)
qed (use assms in \<open>auto simp: geocodedInKerala_def handleLocationInput_def\<close>)

lemma formStep_report:
  assumes "geocodedInKerala s" and "formStep pf ev s = (s', Some report)"
  shows "reportInKerala report"
proof (cases ev)
  case (Submit fetch cb)
  with assms show ?thesis by (auto dest: handleSubmit_report)
qed (use assms in auto)

lemma runForm_inKerala:
  "geocodedInKerala s \<Longrightarrow> list_all reportInKerala (runForm pf evs s)"
proof (induction evs arbitrary: s)
  case Nil
  then show ?case by simp
next
  case (Cons ev evs)
  obtain s' out where st: "formStep pf ev s = (s', out)"
    by (cases "formStep pf ev s")
  with Cons.prems have inv: "geocodedInKerala s'"
    by (rule formStep_invariant)
  show ?case
  proof (cases out)
    case None
    with st Cons.IH [OF inv] show ?thesis by simp
  next
    case (Some report)
    with st Cons.prems have "reportInKerala report"
      by (auto dest: formStep_report)
    with Some st Cons.IH [OF inv] show ?thesis by simp
  qed
qed

lemma handleSubmit_not_found:
  assumes "geocodedLocation s = None"
    and "findBestLocationInKerala pf fetch (trim (formLocation s)) = None"
  shows "snd (handleSubmit pf fetch cb s) = None"
  using assms
  by (auto simp: handleSubmit_def Let_def validateForm_def split: if_splits)

text \<open>
  C10. Over every sequence of inputs and submissions, starting from the empty form, each
  report that \<open>onSubmit\<close> receives carries coordinates, and they lie inside the Kerala
  bounds: latitude from 8.2 to 12.5 and longitude from 74.8 to 77.5. A submission from a
  form without a geocoded location, for which the geocoding finds nothing inside the
  bounds, does not call \<open>onSubmit\<close>.
\<close>

theorem submitted_reports_in_kerala:
  "list_all reportInKerala (runForm pf evs formInitial) \<and>
   (geocodedLocation s = None \<and>
    findBestLocationInKerala pf fetch (trim (formLocation s)) = None
      \<longrightarrow> snd (handleSubmit pf fetch cb s) = None)"
proof (intro conjI impI)
  have "geocodedInKerala formInitial"
    by (simp add: geocodedInKerala_def formInitial_def)
  then show "list_all reportInKerala (runForm pf evs formInitial)"
    by (rule runForm_inKerala)
next
  assume "geocodedLocation s = None \<and>
    findBestLocationInKerala pf fetch (trim (formLocation s)) = None"
  then show "snd (handleSubmit pf fetch cb s) = None"
    by (simp add: handleSubmit_not_found)
qed

theorem submitted_reports_in_kerala_witness:
  "geocodedLocation filledForm = None \<and>
   findBestLocationInKerala sampleParseFloat parisService (trim (formLocation filledForm))
     = None \<and>
   snd (handleSubmit sampleParseFloat parisService False filledForm) = None \<and>
   runForm sampleParseFloat
     [LocationInput ''Kochi'', DescriptionInput ''Large pothole on NH47'',
      CategorySelect ''infrastructure'', Submit kochiService False] formInitial
     = [\<lparr>reportLocation = ''Kochi, Ernakulam, Kerala, India'',
         reportCoordinates = Some \<lparr>lat = 9.9312, lon = 76.2673\<rparr>,
         reportDescription = ''Large pothole on NH47'',
         reportCategory = ''infrastructure''\<rparr>] \<and>
   list_all reportInKerala
     (runForm sampleParseFloat
        [LocationInput ''Kochi'', DescriptionInput ''Large pothole on NH47'',
         CategorySelect ''infrastructure'', Submit kochiService False] formInitial)"
proof -
  have g: "geocodedLocation filledForm = None"
    by (simp add: filledForm_def)
  have t1: "trim ''Kochi'' = ''Kochi''"
    by code_simp
  have t2: "trim ''Large pothole on NH47'' = ''Large pothole on NH47''"
    by code_simp
  have p: "findBestLocationInKerala sampleParseFloat parisService ''Kochi'' = None"
    by code_simp
  have k: "findBestLocationInKerala sampleParseFloat kochiService ''Kochi''
             = Some \<lparr>geoLat = 9.9312, geoLon = 76.2673,
                     geoName = ''Kochi, Ernakulam, Kerala, India''\<rparr>"
    by code_simp
  have p': "findBestLocationInKerala sampleParseFloat parisService
              (trim (formLocation filledForm)) = None"
    by (simp add: filledForm_def t1 p)
  have r: "runForm sampleParseFloat
     [LocationInput ''Kochi'', DescriptionInput ''Large pothole on NH47'',
      CategorySelect ''infrastructure'', Submit kochiService False] formInitial
     = [\<lparr>reportLocation = ''Kochi, Ernakulam, Kerala, India'',
         reportCoordinates = Some \<lparr>lat = 9.9312, lon = 76.2673\<rparr>,
         reportDescription = ''Large pothole on NH47'',
         reportCategory = ''infrastructure''\<rparr>]"
    by (simp add: formInitial_def handleLocationInput_def handleSubmit_def validateForm_def
        resetForm_def Let_def t1 t2 k)
  show ?thesis
    using submitted_reports_in_kerala
            [of sampleParseFloat
                "[LocationInput ''Kochi'', DescriptionInput ''Large pothole on NH47'',
                  CategorySelect ''infrastructure'', Submit kochiService False]"
                filledForm parisService False]
          g p' r
    by simp
qed

section \<open>Properties of the offline snapshot\<close>

lemma of_char_eq_nat: "(of_char c :: nat) = n \<Longrightarrow> c = char_of n"
  by (metis char_of_char)

lemma hexValue_hexDigit: "d < 16 \<Longrightarrow> hexValue (hexDigit d) = Some d"
  by (auto simp: hexValue_def hexDigit_def Let_def)

lemma hex4_low: "n < 32 \<Longrightarrow> hex4 (CHR ''0'') (CHR ''0'') (hexDigit (n div 16)) (hexDigit (n mod 16)) = Some n"
proof -
  assume "n < 32"
  then have a: "n div 16 < 16" and b: "n mod 16 < 16" by auto
  have z: "hexValue (CHR ''0'') = Some 0" by (simp add: hexValue_def)
  show ?thesis
    by (simp add: hex4_def z hexValue_hexDigit [OF a] hexValue_hexDigit [OF b])
qed

lemma char_of_34: "char_of (34::nat) = CHR 0x22"
  by (simp add: char_of_eq_iff)

lemma char_of_92: "char_of (92::nat) = CHR 0x5C"
  by (simp add: char_of_eq_iff)

lemma parseChars_quoteChar:
  "parseChars (quoteChar c @ t) = consChar c (parseChars t)"
proof -
  define n where "n = (of_char c :: nat)"
  have c: "c = char_of n" by (simp add: n_def)
  consider "n = 34" | "n = 92" | "n = 8" | "n = 12" | "n = 10" | "n = 13" | "n = 9"
    | "n < 32" "n \<noteq> 8" "n \<noteq> 12" "n \<noteq> 10" "n \<noteq> 13" "n \<noteq> 9"
    | "n \<ge> 32" "n \<noteq> 34" "n \<noteq> 92"
    by linarith
  then show ?thesis
  proof cases
    case 8
    then have q: "quoteChar c =
        [CHR 0x5C, CHR ''u'', CHR ''0'', CHR ''0'', hexDigit (n div 16), hexDigit (n mod 16)]"
      by (auto simp: quoteChar_def n_def Let_def)
    have cn: "char_of n = c" by (simp add: n_def)
    from 8 have "n < 256" by simp
    with 8 show ?thesis
      by (simp add: q hex4_low cn)
  next
    case 9
    then have q: "quoteChar c = [c]"
      by (auto simp: quoteChar_def n_def Let_def)
    from 9 show ?thesis
      by (simp add: q n_def)
  qed (simp_all add: c quoteChar_def unescape_def Let_def char_of_34 char_of_92)
qed

lemma parseChars_quoted:
  "parseChars (concat (map quoteChar s) @ CHR 0x22 # rest) = Some (s, rest)"
proof (induction s)
  case Nil
  show ?case by simp
next
  case (Cons a s)
  have "parseChars (concat (map quoteChar (a # s)) @ CHR 0x22 # rest)
          = consChar a (parseChars (concat (map quoteChar s) @ CHR 0x22 # rest))"
    by (simp add: parseChars_quoteChar del: parseChars.simps)
  then show ?case
    by (simp add: Cons.IH consChar_def del: parseChars.simps)
qed

lemma quoteJSONString_parse:
  "parseChars (tl (quoteJSONString s) @ rest) = Some (s, rest)"
  by (simp add: quoteJSONString_def parseChars_quoted del: parseChars.simps)

declare parseChars.simps [simp del]

lemma startsValue_not_space: "startsValue c \<Longrightarrow> \<not> isJsonSpace c"
  by (auto simp: startsValue_def isJsonSpace_def isDigit_def Let_def)

lemma startsValue_not_close: "startsValue c \<Longrightarrow> c \<noteq> CHR '']'' \<and> c \<noteq> CHR ''}''"
  by (auto simp: startsValue_def isDigit_def Let_def)

lemma number_head:
  assumes "numberRoundTrips codec x"
  obtains c cs where "showNum codec x = c # cs" and "c = CHR ''-'' \<or> isDigit c"
  using assms by (auto simp: numberRoundTrips_def split: list.splits)

lemma stringify_head:
  assumes "list_all (numberRoundTrips codec) (numbersOf j)"
  shows "\<exists>c cs. stringify codec j = c # cs \<and> startsValue c"
proof (cases j)
  case (JNum x)
  with assms have "numberRoundTrips codec x" by simp
  then obtain c cs where "showNum codec x = c # cs" and "c = CHR ''-'' \<or> isDigit c"
    by (rule number_head)
  with JNum show ?thesis by (auto simp: startsValue_def)
qed (auto simp: startsValue_def quoteJSONString_def)

lemma skipSpace_head: "startsValue c \<Longrightarrow> skipSpace (c # cs) = c # cs"
  by (simp add: skipSpace_def startsValue_not_space)

lemma skipSpace_stringify:
  assumes "list_all (numberRoundTrips codec) (numbersOf j)"
  shows "skipSpace (stringify codec j @ r) = stringify codec j @ r"
proof -
  obtain c cs where "stringify codec j = c # cs" and "startsValue c"
    using stringify_head [OF assms] by blast
  then show ?thesis by (simp add: skipSpace_head)
qed

lemma skipSpace_punct:
  "skipSpace (CHR '','' # r) = CHR '','' # r"
  "skipSpace (CHR '']'' # r) = CHR '']'' # r"
  "skipSpace (CHR ''}'' # r) = CHR ''}'' # r"
  "skipSpace (CHR '':'' # r) = CHR '':'' # r"
  "skipSpace (CHR 0x22 # r) = CHR 0x22 # r"
  by (simp_all add: skipSpace_def isJsonSpace_def)

lemma stringify_length:
  assumes "list_all (numberRoundTrips codec) (numbersOf j)"
  shows "0 < length (stringify codec j)"
  using stringify_head [OF assms] by auto

lemma parseValue_string:
  "parseValue codec (Suc n) (CHR 0x22 # cs) =
     (case parseChars cs of None \<Rightarrow> None | Some (str, r) \<Rightarrow> Some (JStr str, r))"
  by simp

lemma parseValue_array:
  "parseValue codec (Suc n) (CHR ''['' # cs) =
     (case skipSpace cs of
        [] \<Rightarrow> None
      | d # ds \<Rightarrow>
          if d = CHR '']'' then Some (JArr [], ds)
          else (case parseElems codec n (d # ds) of
                  None \<Rightarrow> None | Some (xs, r) \<Rightarrow> Some (JArr xs, r)))"
  by simp

lemma parseValue_object:
  "parseValue codec (Suc n) (CHR ''{'' # cs) =
     (case skipSpace cs of
        [] \<Rightarrow> None
      | d # ds \<Rightarrow>
          if d = CHR ''}'' then Some (JObj [], ds)
          else (case parseMembers codec n (d # ds) of
                  None \<Rightarrow> None | Some (kvs, r) \<Rightarrow> Some (JObj kvs, r)))"
  by simp

lemma number_start_distinct:
  assumes "c = CHR ''-'' \<or> isDigit c"
  shows "c \<noteq> CHR 0x22" "c \<noteq> CHR ''[''" "c \<noteq> CHR ''{''" "c \<noteq> CHR ''t''" "c \<noteq> CHR ''f''"
    "c \<noteq> CHR ''n''"
  using assms by (auto simp: isDigit_def Let_def)

lemma take_literal_head:
  "c \<noteq> CHR ''t'' \<Longrightarrow> take 4 (c # cs) \<noteq> ''true''"
  "c \<noteq> CHR ''f'' \<Longrightarrow> take 5 (c # cs) \<noteq> ''false''"
  "c \<noteq> CHR ''n'' \<Longrightarrow> take 4 (c # cs) \<noteq> ''null''"
  by (simp_all add: take_Cons')

lemma parseValue_number:
  assumes "c = CHR ''-'' \<or> isDigit c"
  shows "parseValue codec (Suc n) (c # cs) =
     (case readNum codec (c # cs) of None \<Rightarrow> None | Some (x, r) \<Rightarrow> Some (JNum x, r))"
  using assms number_start_distinct [OF assms]
  by (simp add: take_literal_head del: take_Suc_Cons)

lemma parseValue_null: "parseValue codec (Suc n) (CHR ''n'' # CHR ''u'' # CHR ''l'' # CHR ''l'' # r) = Some (JNull, r)"
  by simp

lemma parseValue_true: "parseValue codec (Suc n) (CHR ''t'' # CHR ''r'' # CHR ''u'' # CHR ''e'' # r) = Some (JBool True, r)"
  by simp

lemma parseValue_false: "parseValue codec (Suc n) (CHR ''f'' # CHR ''a'' # CHR ''l'' # CHR ''s'' # CHR ''e'' # r)
     = Some (JBool False, r)"
  by simp

lemma parseElems_step:
  "parseElems codec (Suc n) s =
     (case parseValue codec n s of
        None \<Rightarrow> None
      | Some (v, r) \<Rightarrow>
          (case skipSpace r of
             [] \<Rightarrow> None
           | d # ds \<Rightarrow>
               if d = CHR '','' then
                 (case parseElems codec n (skipSpace ds) of
                    None \<Rightarrow> None | Some (vs, r') \<Rightarrow> Some (v # vs, r'))
               else if d = CHR '']'' then Some ([v], ds)
               else None))"
  by simp

lemma parseMembers_step:
  "parseMembers codec (Suc n) (CHR 0x22 # cs) =
     (case parseChars cs of
        None \<Rightarrow> None
      | Some (k, r) \<Rightarrow>
          (case skipSpace r of
             [] \<Rightarrow> None
           | d # ds \<Rightarrow>
               if d \<noteq> CHR '':'' then None
               else
                 (case parseValue codec n (skipSpace ds) of
                    None \<Rightarrow> None
                  | Some (v, r') \<Rightarrow>
                      (case skipSpace r' of
                         [] \<Rightarrow> None
                       | e # es \<Rightarrow>
                           if e = CHR '','' then
                             (case parseMembers codec n (skipSpace es) of
                                None \<Rightarrow> None
                              | Some (kvs, r'') \<Rightarrow> Some ((k, v) # kvs, r''))
                           else if e = CHR ''}'' then Some ([(k, v)], es)
                           else None))))"
  by simp

declare parseValue.simps [simp del] parseElems.simps [simp del] parseMembers.simps [simp del]

lemma delimited_punct:
  "delimited (CHR '','' # r)" "delimited (CHR '']'' # r)" "delimited (CHR ''}'' # r)"
  by (simp_all add: delimited_def)

lemma stringifyElems_head:
  assumes "list_all (numberRoundTrips codec) (numbersOfElems xs)" and "xs \<noteq> []"
  shows "\<exists>c cs. stringifyElems codec xs @ r = c # cs \<and> startsValue c"
proof -
  obtain x xs' where xs: "xs = x # xs'"
    using assms(2) by (cases xs) auto
  with assms(1) have "list_all (numberRoundTrips codec) (numbersOf x)" by simp
  then obtain c cs where "stringify codec x = c # cs" and "startsValue c"
    using stringify_head by blast
  with xs show ?thesis by simp
qed

lemma stringifyMembers_head:
  assumes "kvs \<noteq> []"
  shows "\<exists>cs. stringifyMembers codec kvs @ r = CHR 0x22 # cs"
proof -
  obtain k v kvs' where "kvs = (k, v) # kvs'"
    using assms by (cases kvs) auto
  then show ?thesis by (simp add: quoteJSONString_def)
qed

lemma skipSpace_elems:
  assumes "list_all (numberRoundTrips codec) (numbersOfElems xs)" and "xs \<noteq> []"
  shows "skipSpace (stringifyElems codec xs @ r) = stringifyElems codec xs @ r"
proof -
  obtain c cs where "stringifyElems codec xs @ r = c # cs" and "startsValue c"
    using stringifyElems_head [OF assms] by blast
  then show ?thesis by (simp add: skipSpace_head)
qed

lemma skipSpace_members:
  assumes "kvs \<noteq> []"
  shows "skipSpace (stringifyMembers codec kvs @ r) = stringifyMembers codec kvs @ r"
proof -
  obtain cs where "stringifyMembers codec kvs @ r = CHR 0x22 # cs"
    using stringifyMembers_head [OF assms] by blast
  then show ?thesis by (simp add: skipSpace_punct)
qed

lemma parse_stringify:
  "list_all (numberRoundTrips codec) (numbersOf j) \<Longrightarrow> delimited r \<Longrightarrow>
     length (stringify codec j) \<le> n \<Longrightarrow>
     parseValue codec n (stringify codec j @ r) = Some (j, r)"
  and "list_all (numberRoundTrips codec) (numbersOfElems xs) \<Longrightarrow> xs \<noteq> [] \<Longrightarrow>
     length (stringifyElems codec xs) \<le> n \<Longrightarrow>
     parseElems codec n (stringifyElems codec xs @ r) = Some (xs, r)"
  and "list_all (numberRoundTrips codec) (numbersOfMembers kvs) \<Longrightarrow> kvs \<noteq> [] \<Longrightarrow>
     length (stringifyMembers codec kvs) \<le> n \<Longrightarrow>
     parseMembers codec n (stringifyMembers codec kvs @ r) = Some (kvs, r)"
proof (induction codec j and codec xs and codec kvs arbitrary: n r and n r and n r
    rule: stringify_stringifyElems_stringifyMembers.induct)
  case (1 codec)
  then obtain m where "n = Suc m" by (cases n) auto
  then show ?case by (simp add: parseValue_null)
next
  case (2 codec b)
  then obtain m where "n = Suc m" by (cases n) (auto split: if_splits)
  then show ?case by (simp add: parseValue_true parseValue_false)
next
  case (3 codec x)
  then have ok: "numberRoundTrips codec x" by simp
  then obtain c cs where sh: "showNum codec x = c # cs" and st: "c = CHR ''-'' \<or> isDigit c"
    by (rule number_head)
  from 3 sh obtain m where n: "n = Suc m" by (cases n) auto
  from ok "3.prems"(2) have "readNum codec (showNum codec x @ r) = Some (x, r)"
    by (simp add: numberRoundTrips_def)
  with sh st n show ?case
    by (simp add: parseValue_number)
next
  case (4 codec s)
  then obtain m where n: "n = Suc m" by (cases n) (auto simp: quoteJSONString_def)
  have "parseChars (concat (map quoteChar s) @ CHR 0x22 # r) = Some (s, r)"
    by (rule parseChars_quoted)
  with n show ?case
    by (simp add: quoteJSONString_def parseValue_string)
next
  case (5 codec xs)
  from "5.prems" obtain m where n: "n = Suc m" and len: "length (stringifyElems codec xs) \<le> m"
    by (cases n) auto
  show ?case
  proof (cases "xs = []")
    case True
    with n show ?thesis
      by (simp add: parseValue_array skipSpace_punct)
  next
    case False
    from "5.prems"(1) have ok: "list_all (numberRoundTrips codec) (numbersOfElems xs)"
      by simp
    obtain c cs where hd: "stringifyElems codec xs @ r = c # cs" and st: "startsValue c"
      using stringifyElems_head [OF ok False] by blast
    have p: "parseElems codec m (stringifyElems codec xs @ r) = Some (xs, r)"
      using "5.IH" [OF ok False len] .
    have "parseValue codec (Suc m) (CHR ''['' # stringifyElems codec xs @ r) = Some (JArr xs, r)"
      using p st startsValue_not_close [OF st]
      by (simp add: parseValue_array hd skipSpace_head)
    with n show ?thesis by simp
  qed
next
  case (6 codec kvs)
  from "6.prems" obtain m where n: "n = Suc m"
    and len: "length (stringifyMembers codec kvs) \<le> m"
    by (cases n) auto
  show ?case
  proof (cases "kvs = []")
    case True
    with n show ?thesis
      by (simp add: parseValue_object skipSpace_punct)
  next
    case False
    from "6.prems"(1) have ok: "list_all (numberRoundTrips codec) (numbersOfMembers kvs)"
      by simp
    obtain cs where hd: "stringifyMembers codec kvs @ r = CHR 0x22 # cs"
      using stringifyMembers_head [OF False] by blast
    have p: "parseMembers codec m (stringifyMembers codec kvs @ r) = Some (kvs, r)"
      using "6.IH" [OF ok False len] .
    have "parseValue codec (Suc m) (CHR ''{'' # stringifyMembers codec kvs @ r)
            = Some (JObj kvs, r)"
      using p by (simp add: parseValue_object hd skipSpace_punct)
    with n show ?thesis by simp
  qed
next
  case (7 codec)
  then show ?case by simp
next
  case (8 codec x xs)
  define tail where
    "tail = (if xs = [] then '']'' else CHR '','' # stringifyElems codec xs) @ r"
  have shape: "stringifyElems codec (x # xs) @ r = stringify codec x @ tail"
    by (simp add: tail_def)
  from "8.prems"(1) have okx: "list_all (numberRoundTrips codec) (numbersOf x)"
    and okxs: "list_all (numberRoundTrips codec) (numbersOfElems xs)"
    by simp_all
  have pos: "0 < length (stringify codec x)"
    by (rule stringify_length [OF okx])
  from "8.prems"(3) obtain k where n: "n = Suc k"
    by (cases n) (auto split: if_splits)
  from "8.prems"(3) n have lenx: "length (stringify codec x) \<le> k"
    by (auto split: if_splits)
  have dl: "delimited tail"
    by (simp add: tail_def delimited_punct)
  have v: "parseValue codec k (stringify codec x @ tail) = Some (x, tail)"
    using "8.IH"(1) [OF okx dl lenx] .
  show ?case
  proof (cases "xs = []")
    case True
    then have t: "tail = CHR '']'' # r" by (simp add: tail_def)
    from v True show ?thesis
      unfolding n shape by (simp add: parseElems_step skipSpace_punct t)
  next
    case False
    then have t: "tail = CHR '','' # stringifyElems codec xs @ r" by (simp add: tail_def)
    from "8.prems"(3) n False pos have lenxs: "length (stringifyElems codec xs) \<le> k"
      by simp
    have more: "parseElems codec k (stringifyElems codec xs @ r) = Some (xs, r)"
      using "8.IH"(2) [OF False okxs False lenxs] .
    from v more show ?thesis
      unfolding n shape
      by (simp add: parseElems_step skipSpace_punct skipSpace_elems [OF okxs False] t)
  qed
next
  case (9 codec)
  then show ?case by simp
next
  case (10 codec k v kvs)
  define tail where
    "tail = (if kvs = [] then ''}'' else CHR '','' # stringifyMembers codec kvs) @ r"
  have shape: "stringifyMembers codec ((k, v) # kvs) @ r
      = CHR 0x22 # (concat (map quoteChar k) @ CHR 0x22 # CHR '':'' # stringify codec v @ tail)"
    by (simp add: tail_def quoteJSONString_def)
  from "10.prems"(1) have okv: "list_all (numberRoundTrips codec) (numbersOf v)"
    and okkvs: "list_all (numberRoundTrips codec) (numbersOfMembers kvs)"
    by simp_all
  from "10.prems"(3) obtain m where n: "n = Suc m"
    by (cases n) (auto simp: quoteJSONString_def)
  from "10.prems"(3) n have lenv: "length (stringify codec v) \<le> m"
    by (auto simp: quoteJSONString_def split: if_splits)
  have dl: "delimited tail"
    by (simp add: tail_def delimited_punct)
  have key: "parseChars (concat (map quoteChar k) @ CHR 0x22 # CHR '':'' # stringify codec v @ tail)
      = Some (k, CHR '':'' # stringify codec v @ tail)"
    by (rule parseChars_quoted)
  have val: "parseValue codec m (stringify codec v @ tail) = Some (v, tail)"
    using "10.IH"(1) [OF okv dl lenv] .
  have sk: "skipSpace (stringify codec v @ tail) = stringify codec v @ tail"
    by (rule skipSpace_stringify [OF okv])
  show ?case
  proof (cases "kvs = []")
    case True
    then have t: "tail = CHR ''}'' # r" by (simp add: tail_def)
    from key val sk True show ?thesis
      unfolding n shape by (simp add: parseMembers_step skipSpace_punct t)
  next
    case False
    then have t: "tail = CHR '','' # stringifyMembers codec kvs @ r" by (simp add: tail_def)
    from "10.prems"(3) n False have lenkvs: "length (stringifyMembers codec kvs) \<le> m"
      by (simp add: quoteJSONString_def)
    have more: "parseMembers codec m (stringifyMembers codec kvs @ r) = Some (kvs, r)"
      using "10.IH"(2) [OF False okkvs False lenkvs] .
    from key val sk more show ?thesis
      unfolding n shape
      by (simp add: parseMembers_step skipSpace_punct skipSpace_members [OF False] t)
  qed
qed

lemma parseJSON_stringify:
  assumes "list_all (numberRoundTrips codec) (numbersOf j)"
  shows "parseJSON codec (stringify codec j) = Some j"
proof -
  have d: "delimited []" by (simp add: delimited_def)
  have "parseValue codec (length (stringify codec j)) (stringify codec j @ []) = Some (j, [])"
    by (rule parse_stringify(1) [OF assms d]) simp
  moreover have "skipSpace (stringify codec j) = stringify codec j"
    using skipSpace_stringify [OF assms, of "[]"] by simp
  ultimately show ?thesis
    by (simp add: parseJSON_def skipSpace_def)
qed

lemma stringify_toJson_nonempty: "stringify codec (toJson d) \<noteq> []"
  by (simp add: toJson_def)

lemma jsonMember_toJson:
  "jsonMember ''center'' (toJson d) = Some (JArr [JNum (fst (center d)), JNum (snd (center d))])"
  "jsonMember ''zoom'' (toJson d) = Some (JNum (zoom d))"
  "jsonMember ''markers'' (toJson d) = Some (JArr (map markerToJson (markers d)))"
  by (simp_all add: jsonMember_def toJson_def)

lemma load_after_save:
  assumes "list_all (numberRoundTrips (numbers pf)) (numbersOf (toJson data))"
    and "setItemAccepts pf (stringify (numbers pf) (toJson data))"
  shows "offlineData (loadOfflineData pf (restart (saveOfflineData pf data st)))
           = Some (toJson data)"
proof -
  have p: "parseJSON (numbers pf) (stringify (numbers pf) (toJson data)) = Some (toJson data)"
    by (rule parseJSON_stringify [OF assms(1)])
  show ?thesis
    using assms(2) p
    by (simp add: loadOfflineData_def restart_def saveOfflineData_def Let_def
        stringify_toJson_nonempty)
qed

text \<open>
  C9. Saving a snapshot and loading it back after a restart gives the component the same
  value: the same centre, the same zoom and the same number of markers. The two
  assumptions are the browser's part: the text of each number of the snapshot reads back
  as that number, and \<open>setItem\<close> takes the text.
\<close>

theorem snapshot_round_trip:
  assumes "list_all (numberRoundTrips (numbers pf)) (numbersOf (toJson data))"
    and "setItemAccepts pf (stringify (numbers pf) (toJson data))"
  shows
   "offlineData (loadOfflineData pf (restart (saveOfflineData pf data st)))
      = Some (toJson data) \<and>
    loadedCenter (loadOfflineData pf (restart (saveOfflineData pf data st)))
      = Some (center data) \<and>
    loadedZoom (loadOfflineData pf (restart (saveOfflineData pf data st)))
      = Some (zoom data) \<and>
    loadedMarkerCount (loadOfflineData pf (restart (saveOfflineData pf data st)))
      = Some (length (markers data))"
proof -
  have l: "offlineData (loadOfflineData pf (restart (saveOfflineData pf data st)))
      = Some (toJson data)"
    by (rule load_after_save [OF assms])
  show ?thesis
    by (simp add: l loadedCenter_def loadedZoom_def loadedMarkerCount_def snapshotCenter_def
        snapshotZoom_def markerCount_def jsonMember_toJson)
qed

lemma delimited_no_digit:
  assumes "delimited r"
  shows "takeWhile isDigit r = []" and "dropWhile isDigit r = r"
    and "(case r of [] \<Rightarrow> False | d # ds \<Rightarrow> d = CHR ''.'' \<and> takeWhile isDigit ds \<noteq> []) = False"
  using assms by (auto simp: delimited_def isDigit_def Let_def split: list.splits)

lemma isDigit_literals:
  "isDigit (CHR ''0'')" "isDigit (CHR ''1'')" "isDigit (CHR ''2'')" "isDigit (CHR ''3'')"
  "isDigit (CHR ''4'')" "isDigit (CHR ''5'')" "isDigit (CHR ''6'')" "isDigit (CHR ''7'')"
  "isDigit (CHR ''8'')" "isDigit (CHR ''9'')" "\<not> isDigit (CHR ''.'')"
  by (simp_all add: isDigit_def)

lemma show_10_85: "sampleShowNum 10.85 = ''10.85''"
  by (simp add: sampleShowNum_def)

lemma read_10_85: "delimited r \<Longrightarrow> readDecimal (''10.85'' @ r) = Some (10.85, r)"
  by (simp add: readDecimal_def Let_def delimited_no_digit isDigit_literals digitsValue_def)

lemma round_trip_10_85: "numberRoundTrips sampleCodec 10.85"
  unfolding numberRoundTrips_def sampleCodec_def numberCodec.simps show_10_85
  using read_10_85 by (simp add: isDigit_literals)

lemma show_76_27: "sampleShowNum 76.27 = ''76.27''"
  by (simp add: sampleShowNum_def)

lemma read_76_27: "delimited r \<Longrightarrow> readDecimal (''76.27'' @ r) = Some (76.27, r)"
  by (simp add: readDecimal_def Let_def delimited_no_digit isDigit_literals digitsValue_def)

lemma round_trip_76_27: "numberRoundTrips sampleCodec 76.27"
  unfolding numberRoundTrips_def sampleCodec_def numberCodec.simps show_76_27
  using read_76_27 by (simp add: isDigit_literals)

lemma show_7: "sampleShowNum 7 = ''7''"
  by (simp add: sampleShowNum_def)

lemma read_7: "delimited r \<Longrightarrow> readDecimal (''7'' @ r) = Some (7, r)"
  by (simp add: readDecimal_def Let_def delimited_no_digit isDigit_literals digitsValue_def)

lemma round_trip_7: "numberRoundTrips sampleCodec 7"
  unfolding numberRoundTrips_def sampleCodec_def numberCodec.simps show_7
  using read_7 by (simp add: isDigit_literals)

lemma show_9_9312: "sampleShowNum 9.9312 = ''9.9312''"
  by (simp add: sampleShowNum_def)

lemma read_9_9312: "delimited r \<Longrightarrow> readDecimal (''9.9312'' @ r) = Some (9.9312, r)"
  by (simp add: readDecimal_def Let_def delimited_no_digit isDigit_literals digitsValue_def)

lemma round_trip_9_9312: "numberRoundTrips sampleCodec 9.9312"
  unfolding numberRoundTrips_def sampleCodec_def numberCodec.simps show_9_9312
  using read_9_9312 by (simp add: isDigit_literals)

lemma show_76_2673: "sampleShowNum 76.2673 = ''76.2673''"
  by (simp add: sampleShowNum_def)

lemma read_76_2673: "delimited r \<Longrightarrow> readDecimal (''76.2673'' @ r) = Some (76.2673, r)"
  by (simp add: readDecimal_def Let_def delimited_no_digit isDigit_literals digitsValue_def)

lemma round_trip_76_2673: "numberRoundTrips sampleCodec 76.2673"
  unfolding numberRoundTrips_def sampleCodec_def numberCodec.simps show_76_2673
  using read_76_2673 by (simp add: isDigit_literals)

lemmas sample_numbers_round_trip =
  round_trip_10_85 round_trip_76_27 round_trip_7 round_trip_9_9312 round_trip_76_2673

theorem snapshot_round_trip_witness:
  "list_all (numberRoundTrips (numbers samplePlatform)) (numbersOf (toJson sampleSnapshot)) \<and>
   setItemAccepts samplePlatform (stringify (numbers samplePlatform) (toJson sampleSnapshot)) \<and>
   loadedCenter (loadOfflineData samplePlatform
       (restart (saveOfflineData samplePlatform sampleSnapshot emptyStore)))
     = Some (10.85, 76.27) \<and>
   loadedZoom (loadOfflineData samplePlatform
       (restart (saveOfflineData samplePlatform sampleSnapshot emptyStore))) = Some 7 \<and>
   loadedMarkerCount (loadOfflineData samplePlatform
       (restart (saveOfflineData samplePlatform sampleSnapshot emptyStore))) = Some 1"
proof -
  have n: "list_all (numberRoundTrips (numbers samplePlatform))
             (numbersOf (toJson sampleSnapshot))"
  proof -
    have ns: "numbersOf (toJson sampleSnapshot) = [10.85, 76.27, 7, 9.9312, 76.2673]"
      by (simp add: toJson_def markerToJson_def sampleSnapshot_def)
    have pn: "numbers samplePlatform = sampleCodec"
      by (simp add: samplePlatform_def)
    show ?thesis
      unfolding ns pn
      by (simp only: list.pred_inject sample_numbers_round_trip simp_thms)
  qed
  have a: "setItemAccepts samplePlatform
             (stringify (numbers samplePlatform) (toJson sampleSnapshot))"
    by (simp add: samplePlatform_def toJson_def markerToJson_def sampleSnapshot_def
        sampleCodec_def sampleShowNum_def quoteJSONString_def quoteChar_def typeText_def
        priorityText_def statusText_def)
  have c: "center sampleSnapshot = (10.85, 76.27)" "zoom sampleSnapshot = 7"
    "length (markers sampleSnapshot) = 1"
    by (simp_all add: sampleSnapshot_def)
  show ?thesis
    using snapshot_round_trip [OF n a, of emptyStore] n a c by simp
qed

end
